theory Spec2Isabelle
  imports Complex_Main "HOL-Library.AList" "HOL-Library.Multiset" "HOL-Library.Log_Nat"
begin

section \<open>Python values, errors and the random source\<close>

text \<open>
  The label constructors and the collator of \<^verbatim>\<open>cg_detr_dataset.py\<close> are embedded as
  HOL functions. Every exception the Python can raise is a value \<open>Inl e\<close>.
  Python integers are \<open>int\<close>. A floating-point number is the real number it denotes.
  The Python float divisions of \<^verbatim>\<open>get_saliency_labels_sub_as_query\<close> and the int64 sums
  of \<^verbatim>\<open>get_saliency_labels_all\<close> are modelled with their rounding and their wrap-around
  (below); tensor arithmetic elsewhere is exact.
\<close>

datatype py_error =
    IndexError | KeyError | ValueError | AxisError | ZeroDivisionError | TypeError
  | NameError | NotImplementedError | AssertionError | FileNotFoundError | RuntimeError
  | AttributeError

text \<open>
  The module \<^verbatim>\<open>random\<close> is a tape of naturals: each draw \<^verbatim>\<open>randbelow(n)\<close> consumes one
  cell and reduces it modulo \<open>n\<close> (an exhausted tape yields 0). Every sequence of
  outcomes of the generator is some tape.
\<close>

type_synonym rng = "nat list"

fun randbelow :: "nat \<Rightarrow> rng \<Rightarrow> nat \<times> rng" where
  "randbelow n [] = (0, [])"
| "randbelow n (r # rs) = (r mod n, rs)"

definition remove_nth :: "nat \<Rightarrow> 'a list \<Rightarrow> 'a list" where
  "remove_nth j xs = take j xs @ drop (Suc j) xs"

text \<open>\<^verbatim>\<open>random.sample(pool, k)\<close>: \<open>k\<close> draws without replacement; ValueError when the
  pool is smaller than \<open>k\<close>.\<close>

fun sample_from :: "'a list \<Rightarrow> nat \<Rightarrow> rng \<Rightarrow> 'a list \<times> rng" where
  "sample_from pool 0 g = ([], g)"
| "sample_from pool (Suc k) g =
     (case randbelow (length pool) g of (j, g1) \<Rightarrow>
        (case sample_from (remove_nth j pool) k g1 of (rest, g2) \<Rightarrow> (pool ! j # rest, g2)))"

definition random_sample :: "'a list \<Rightarrow> int \<Rightarrow> rng \<Rightarrow> py_error + ('a list \<times> rng)" where
  "random_sample pool k g =
     (if k < 0 \<or> int (length pool) < k then Inl ValueError
      else Inr (sample_from pool (nat k) g))"

text \<open>\<^verbatim>\<open>random.shuffle(x)\<close>: for \<open>i\<close> from \<open>len(x) - 1\<close> down to 1, draw \<open>j < i + 1\<close> and
  swap \<open>x[i]\<close> and \<open>x[j]\<close>. The list is changed in place; the model returns it.\<close>

fun shuffle_from :: "nat \<Rightarrow> 'a list \<Rightarrow> rng \<Rightarrow> 'a list \<times> rng" where
  "shuffle_from 0 xs g = (xs, g)"
| "shuffle_from (Suc i) xs g =
     (case randbelow (Suc (Suc i)) g of (j, g1) \<Rightarrow>
        shuffle_from i (xs[Suc i := xs ! j, j := xs ! Suc i]) g1)"

definition random_shuffle :: "'a list \<Rightarrow> rng \<Rightarrow> 'a list \<times> rng" where
  "random_shuffle xs g = shuffle_from (length xs - 1) xs g"

subsection \<open>Indexing and slicing\<close>

text \<open>Python's \<^verbatim>\<open>int(x)\<close> on a float truncates toward zero.\<close>

definition py_int :: "real \<Rightarrow> int" where
  "py_int x = (if 0 \<le> x then \<lfloor>x\<rfloor> else \<lceil>x\<rceil>)"

text \<open>A slice bound against a sequence of length \<open>n\<close>: a negative bound counts from the
  end, and the result is clipped to \<open>0..n\<close>.\<close>

definition slice_bound :: "int \<Rightarrow> nat \<Rightarrow> nat" where
  "slice_bound i n = (if i < 0 then nat (max 0 (i + int n)) else min (nat i) n)"

definition slice_to :: "int \<Rightarrow> 'a list \<Rightarrow> 'a list" where
  "slice_to hi xs = take (slice_bound hi (length xs)) xs"

definition slice_from :: "int \<Rightarrow> 'a list \<Rightarrow> 'a list" where
  "slice_from lo xs = drop (slice_bound lo (length xs)) xs"

text \<open>\<^verbatim>\<open>xs[lo:hi] = v\<close> for a scalar \<open>v\<close>.\<close>

definition slice_fill :: "'a list \<Rightarrow> int \<Rightarrow> int \<Rightarrow> 'a \<Rightarrow> 'a list" where
  "slice_fill xs lo hi v =
     map (\<lambda>i. if slice_bound lo (length xs) \<le> i \<and> i < slice_bound hi (length xs)
               then v else xs ! i) [0..<length xs]"

text \<open>\<^verbatim>\<open>xs[i]\<close> and \<^verbatim>\<open>xs[i] = v\<close>: a negative index counts from the end, IndexError
  outside the sequence.\<close>

definition py_get :: "'a list \<Rightarrow> int \<Rightarrow> py_error + 'a" where
  "py_get xs i =
     (let n = int (length xs); j = (if i < 0 then i + n else i)
      in if 0 \<le> j \<and> j < n then Inr (xs ! nat j) else Inl IndexError)"

definition py_set :: "'a list \<Rightarrow> int \<Rightarrow> 'a \<Rightarrow> py_error + 'a list" where
  "py_set xs i v =
     (let n = int (length xs); j = (if i < 0 then i + n else i)
      in if 0 \<le> j \<and> j < n then Inr (xs[nat j := v]) else Inl IndexError)"

text \<open>\<^verbatim>\<open>np.zeros(n)\<close> raises ValueError for a negative dimension.\<close>

definition np_zeros :: "int \<Rightarrow> py_error + real list" where
  "np_zeros n = (if n < 0 then Inl ValueError else Inr (replicate (nat n) 0))"

text \<open>\<^verbatim>\<open>list(range(lo, hi))\<close>.\<close>

definition py_range :: "int \<Rightarrow> int \<Rightarrow> int list" where
  "py_range lo hi = [lo..hi - 1]"

section \<open>Double precision and 64-bit integers\<close>

text \<open>
  \<open>fl\<close> rounds an exact result to double precision: 53 significant bits, to nearest,
  ties to even. The exponent is not bounded, so \<open>fl\<close> is the rounding of the machine
  wherever the machine neither overflows nor underflows. \<open>expo x\<close> is the binary exponent
  of a non-zero \<open>x\<close>, the \<open>e\<close> with \<open>2^e \<le> |x| < 2^(e+1)\<close>.
\<close>

definition pow2 :: "int \<Rightarrow> real" where
  "pow2 e = (if 0 \<le> e then 2 ^ nat e else 1 / 2 ^ nat (- e))"

definition expo :: "real \<Rightarrow> int" where
  "expo x = (if 1 \<le> \<bar>x\<bar> then bitlen \<lfloor>\<bar>x\<bar>\<rfloor> - 1 else - bitlen (\<lceil>1 / \<bar>x\<bar>\<rceil> - 1))"

definition round_even :: "real \<Rightarrow> int" where
  "round_even y =
     (let f = \<lfloor>y\<rfloor>; d = y - real_of_int f
      in if d < 1 / 2 then f else if 1 / 2 < d then f + 1 else if even f then f else f + 1)"

definition fl :: "real \<Rightarrow> real" where
  "fl x =
     (if x = 0 then 0
      else pow2 (expo x - 52) * real_of_int (round_even (x / pow2 (expo x - 52))))"

text \<open>The value of an int64 sum: the exact sum reduced into \<open>[-2^63, 2^63)\<close>.\<close>

definition wrap64 :: "int \<Rightarrow> int" where
  "wrap64 i = (i + 2 ^ 63) mod 2 ^ 64 - 2 ^ 63"

section \<open>Saliency labels from one ground-truth window\<close>

text \<open>
  \<^verbatim>\<open>get_saliency_labels_sub_as_query(gt_window, duration, ctx_l, max_n=2)\<close>.
  \<^verbatim>\<open>duration / ctx_l\<close> and the two quotients by \<open>clip_len\<close> are Python float divisions:
  each is the exact quotient rounded to double precision. The two branches on \<^verbatim>\<open>self.dset_name == 'nlq'\<close> build the same list. The bare
  \<^verbatim>\<open>except\<close> around the negative sample falls back to the positive indices.
\<close>

definition get_saliency_labels_sub_as_query ::
  "string \<Rightarrow> real \<times> real \<Rightarrow> real \<Rightarrow> int \<Rightarrow> int \<Rightarrow> rng
     \<Rightarrow> py_error + ((int list \<times> int list \<times> real list) \<times> rng)" where
  "get_saliency_labels_sub_as_query dset_name gt_window duration ctx_l max_n g =
     (if ctx_l = 0 then Inl ZeroDivisionError
      else let clip_len = fl (duration / real_of_int ctx_l) in
        if clip_len = 0 then Inl ZeroDivisionError
        else let gt_st0 = py_int (fl (fst gt_window / clip_len));
                 gt_ed = max 0 (min (py_int (fl (snd gt_window / clip_len))) ctx_l - 1);
                 gt_st = (if gt_st0 > gt_ed then gt_ed else gt_st0)
             in case (if gt_st \<noteq> gt_ed
                      then random_sample (py_range gt_st (gt_ed + 1)) max_n g
                      else if dset_name = ''nlq'' then Inr (replicate 2 gt_st, g)
                      else Inr ([gt_st, gt_st], g)) of
                  Inl e \<Rightarrow> Inl e
                | Inr (pos_clip_indices, g1) \<Rightarrow>
                    let neg_pool = py_range 0 gt_st @ py_range (gt_ed + 1) ctx_l;
                        (neg_clip_indices, g2) =
                          (case random_sample neg_pool max_n g1 of
                             Inl e \<Rightarrow> (pos_clip_indices, g1)
                           | Inr r \<Rightarrow> r)
                    in case np_zeros ctx_l of
                         Inl e \<Rightarrow> Inl e
                       | Inr score_array \<Rightarrow>
                           Inr ((pos_clip_indices, neg_clip_indices,
                                 slice_fill score_array gt_st (gt_ed + 1) 1), g2))"

text \<open>The property as the specification words it, in exact arithmetic: with
  \<open>clip_len = duration / ctx_l\<close>, \<open>gt_ed = max(0, min(floor(ed / clip_len), ctx_l) - 1)\<close> and
  \<open>gt_st = min(floor(st / clip_len), gt_ed)\<close>, the score array has length \<open>ctx_l\<close>, is 1
  exactly at the indices \<open>gt_st..gt_ed\<close>, and every positive index lies in that range.\<close>

definition sub_as_query_spec ::
  "real \<times> real \<Rightarrow> real \<Rightarrow> int \<Rightarrow> int list \<times> int list \<times> real list \<Rightarrow> bool" where
  "sub_as_query_spec gt_window duration ctx_l res =
     (let clip_len = duration / real_of_int ctx_l;
          gt_ed = max 0 (min \<lfloor>snd gt_window / clip_len\<rfloor> ctx_l - 1);
          gt_st = min \<lfloor>fst gt_window / clip_len\<rfloor> gt_ed
      in snd (snd res) =
           map (\<lambda>i. if gt_st \<le> int i \<and> int i \<le> gt_ed then 1 else 0) [0..<nat ctx_l]
         \<and> list_all (\<lambda>p. gt_st \<le> p \<and> p \<le> gt_ed) (fst res))"

text \<open>The same property with the three quotients in double precision, as Python computes
  them.\<close>

definition sub_as_query_rounded ::
  "real \<times> real \<Rightarrow> real \<Rightarrow> int \<Rightarrow> int list \<times> int list \<times> real list \<Rightarrow> bool" where
  "sub_as_query_rounded gt_window duration ctx_l res =
     (let clip_len = fl (duration / real_of_int ctx_l);
          gt_ed = max 0 (min \<lfloor>fl (snd gt_window / clip_len)\<rfloor> ctx_l - 1);
          gt_st = min \<lfloor>fl (fst gt_window / clip_len)\<rfloor> gt_ed
      in snd (snd res) =
           map (\<lambda>i. if gt_st \<le> int i \<and> int i \<le> gt_ed then 1 else 0) [0..<nat ctx_l]
         \<and> list_all (\<lambda>p. gt_st \<le> p \<and> p \<le> gt_ed) (fst res))"

text \<open>The numbers for which the rounded model is the machine: a double-precision value,
  zero or normal, of magnitude at most \<open>2^64\<close>.\<close>

definition float64_value :: "real \<Rightarrow> bool" where
  "float64_value x =
     (fl x = x \<and> \<bar>x\<bar> \<le> 2 ^ 64 \<and> (x = 0 \<or> 1 / 2 ^ 1022 \<le> \<bar>x\<bar>))"

section \<open>Saliency labels from relevant clip ids and annotator scores\<close>

text \<open>
  A list of lists handed to \<^verbatim>\<open>np.array\<close> must be rectangular (ValueError otherwise); an
  empty list gives a one-dimensional array of shape \<open>(0,)\<close>, on which a reduction over
  axis 1 raises AxisError. The annotator scores are integers, and \<^verbatim>\<open>np.array\<close> makes an
  int64 array of integers that fit in 64 bits; \<^verbatim>\<open>np.sum\<close> over it adds in int64, so a
  row sum is the exact sum wrapped into 64 bits. (Scores beyond int64 and fractional
  scores give an array of another type, which this model does not cover.)
\<close>

definition rectangular :: "'a list list \<Rightarrow> bool" where
  "rectangular rows = list_all (\<lambda>r. length r = length (hd rows)) rows"

definition np_sum_axis1 :: "int list list \<Rightarrow> py_error + int list" where
  "np_sum_axis1 rows =
     (if \<not> rectangular rows then Inl ValueError
      else if rows = [] then Inl AxisError
      else Inr (map (\<lambda>row. wrap64 (sum_list row)) rows))"

text \<open>\<^verbatim>\<open>np.argsort\<close>: the indices in increasing order of their keys. numpy leaves the
  order of equal keys open; the model keeps them in index order.\<close>

definition np_argsort :: "'a::linorder list \<Rightarrow> nat list" where
  "np_argsort xs = map snd (sort_key fst (zip xs [0..<length xs]))"

text \<open>A list comprehension whose body may raise: the first error wins.\<close>

fun map_raise :: "('a \<Rightarrow> py_error + 'b) \<Rightarrow> 'a list \<Rightarrow> py_error + 'b list" where
  "map_raise f [] = Inr []"
| "map_raise f (x # xs) =
     (case f x of
        Inl e \<Rightarrow> Inl e
      | Inr y \<Rightarrow> (case map_raise f xs of Inl e \<Rightarrow> Inl e | Inr ys \<Rightarrow> Inr (y # ys)))"

text \<open>
  The growth step of the score loop:
  \<^verbatim>\<open>score_array_new = np.zeros(ctx_l + 1); score_array_new[:ctx_l] = score_array\<close>.
  The slice has \<open>ctx_l\<close> cells; numpy accepts a right-hand side of that length or of
  length 1 (broadcast) and raises ValueError for any other.
\<close>

definition score_array_grow :: "int \<Rightarrow> real list \<Rightarrow> py_error + real list" where
  "score_array_grow ctx_l score_array =
     (if int (length score_array) = ctx_l then Inr (score_array @ [0])
      else if length score_array = 1 then Inr (replicate (nat ctx_l) (score_array ! 0) @ [0])
      else Inl ValueError)"

text \<open>
  \<^verbatim>\<open>for idx in range(len(rel_clip_ids)):\<close>
  \<^verbatim>\<open>    if rel_clip_ids[idx] >= ctx_l: ... grow ...\<close>
  \<^verbatim>\<open>    score_array[rel_clip_ids[idx]] = agg_scores[idx]\<close>
  The recursion runs over the remaining clip ids, \<open>idx\<close> counting the position. The
  store into the float64 array converts the int64 sum to double precision.
\<close>

fun score_loop :: "int \<Rightarrow> int list \<Rightarrow> int list \<Rightarrow> nat \<Rightarrow> real list \<Rightarrow> py_error + real list" where
  "score_loop ctx_l [] agg_scores idx score_array = Inr score_array"
| "score_loop ctx_l (c # cs) agg_scores idx score_array =
     (case (if c \<ge> ctx_l then score_array_grow ctx_l score_array else Inr score_array) of
        Inl e \<Rightarrow> Inl e
      | Inr arr1 \<Rightarrow>
          (case py_get agg_scores (int idx) of
             Inl e \<Rightarrow> Inl e
           | Inr v \<Rightarrow>
               (case py_set arr1 c (fl (real_of_int v)) of
                  Inl e \<Rightarrow> Inl e
                | Inr arr2 \<Rightarrow> score_loop ctx_l cs agg_scores (Suc idx) arr2)))"

text \<open>\<^verbatim>\<open>[min(rel_clip_ids[idx], ctx_l-1) for idx in ...]\<close>\<close>

definition hard_clip_indices :: "int list \<Rightarrow> int \<Rightarrow> nat list \<Rightarrow> py_error + int list" where
  "hard_clip_indices rel_clip_ids ctx_l idxs =
     map_raise (\<lambda>idx. case py_get rel_clip_ids (int idx) of
                         Inl e \<Rightarrow> Inl e
                       | Inr c \<Rightarrow> Inr (min c (ctx_l - 1))) idxs"

text \<open>
  \<^verbatim>\<open>get_saliency_labels_all(rel_clip_ids, scores, ctx_l, max_n=1, add_easy_negative=True)\<close>.
  \<^verbatim>\<open>list(set(range(ctx_l)) - set(rel_clip_ids))\<close> is modelled in increasing order; it is
  only sampled from.
\<close>

definition get_saliency_labels_all ::
  "int list \<Rightarrow> int list list \<Rightarrow> int \<Rightarrow> int \<Rightarrow> bool \<Rightarrow> rng
     \<Rightarrow> py_error + ((int list \<times> int list \<times> real list) \<times> rng)" where
  "get_saliency_labels_all rel_clip_ids scores ctx_l max_n add_easy_negative g =
     (case np_sum_axis1 scores of
        Inl e \<Rightarrow> Inl e
      | Inr agg_scores \<Rightarrow>
     let sort_indices = np_argsort agg_scores in
     case np_zeros ctx_l of
        Inl e \<Rightarrow> Inl e
      | Inr zeros \<Rightarrow>
     case score_loop ctx_l rel_clip_ids agg_scores 0 zeros of
        Inl e \<Rightarrow> Inl e
      | Inr score_array \<Rightarrow>
     case hard_clip_indices rel_clip_ids ctx_l (slice_from (- max_n) sort_indices) of
        Inl e \<Rightarrow> Inl e
      | Inr hard_pos_clip_indices \<Rightarrow>
     case hard_clip_indices rel_clip_ids ctx_l (slice_to max_n sort_indices) of
        Inl e \<Rightarrow> Inl e
      | Inr hard_neg_clip_indices \<Rightarrow>
     case (if add_easy_negative then
             let easy_neg_pool = filter (\<lambda>i. i \<notin> set rel_clip_ids) (py_range 0 ctx_l) in
             if int (length easy_neg_pool) \<ge> max_n then
               case random_sample rel_clip_ids max_n g of
                 Inl e \<Rightarrow> Inl e
               | Inr (easy_pos, g1) \<Rightarrow>
                   (case random_sample easy_neg_pool max_n g1 of
                      Inl e \<Rightarrow> Inl e
                    | Inr (easy_neg, g2) \<Rightarrow> Inr (easy_pos, easy_neg, g2))
             else Inr (hard_pos_clip_indices, hard_neg_clip_indices, g)
           else Inr ([], [], g)) of
        Inl e \<Rightarrow> Inl e
      | Inr (easy_pos_clip_indices, easy_neg_clip_indices, g') \<Rightarrow>
          Inr ((hard_pos_clip_indices @ easy_pos_clip_indices,
                hard_neg_clip_indices @ easy_neg_clip_indices, score_array), g'))"

text \<open>
  \<^verbatim>\<open>get_saliency_labels_all_tvsum(labels, ctx_l, max_n=1, add_easy_negative=False)\<close>.
  \<^verbatim>\<open>np.sum(labels - np.ones_like(labels), axis=-1)\<close> of an empty list is a scalar, which
  \<^verbatim>\<open>[:ctx_l]\<close> cannot slice (IndexError). With \<open>add_easy_negative\<close> the source reads the
  undefined name \<^verbatim>\<open>rel_clip_ids\<close> (NameError) as soon as the pool is large enough.
\<close>

definition easy_indices_unbound ::
  "int \<Rightarrow> int \<Rightarrow> bool \<Rightarrow> int list \<Rightarrow> int list \<Rightarrow> py_error + (int list \<times> int list)" where
  "easy_indices_unbound ctx_l max_n add_easy_negative hard_pos hard_neg =
     (if add_easy_negative then
        if int (length (py_range 0 ctx_l)) \<ge> max_n then Inl NameError
        else Inr (hard_pos, hard_neg)
      else Inr ([], []))"

definition get_saliency_labels_all_tvsum ::
  "real list list \<Rightarrow> int \<Rightarrow> int \<Rightarrow> bool \<Rightarrow> py_error + (int list \<times> int list \<times> real list)" where
  "get_saliency_labels_all_tvsum labels ctx_l max_n add_easy_negative =
     (if \<not> rectangular labels then Inl ValueError
      else if labels = [] then Inl IndexError
      else
        let agg_scores = slice_to ctx_l (map (\<lambda>row. sum_list (map (\<lambda>x. x - 1) row)) labels);
            score_array = map (\<lambda>a. a / 80 * 12) agg_scores;
            sort_indices = np_argsort agg_scores;
            hard_pos_clip_indices =
              map (\<lambda>idx. min (int idx) (ctx_l - 1)) (slice_from (- max_n) sort_indices);
            hard_neg_clip_indices =
              map (\<lambda>idx. min (int idx) (ctx_l - 1)) (slice_to max_n sort_indices)
        in case easy_indices_unbound ctx_l max_n add_easy_negative
                  hard_pos_clip_indices hard_neg_clip_indices of
             Inl e \<Rightarrow> Inl e
           | Inr (easy_pos_clip_indices, easy_neg_clip_indices) \<Rightarrow>
               Inr (hard_pos_clip_indices @ easy_pos_clip_indices,
                    hard_neg_clip_indices @ easy_neg_clip_indices, score_array))"

text \<open>
  \<^verbatim>\<open>get_saliency_labels_all_youtube\<close>: \<^verbatim>\<open>np.array(labels)[:, 0]\<close> is the first column; it
  needs a two-dimensional array with at least one column.
\<close>

definition get_saliency_labels_all_youtube ::
  "real list list \<Rightarrow> int \<Rightarrow> int \<Rightarrow> bool \<Rightarrow> py_error + (int list \<times> int list \<times> real list)" where
  "get_saliency_labels_all_youtube labels ctx_l max_n add_easy_negative =
     (if \<not> rectangular labels then Inl ValueError
      else if labels = [] \<or> hd labels = [] then Inl IndexError
      else
        let agg_scores = map hd labels;
            score_array = map (\<lambda>a. a * 1) agg_scores;
            sort_indices = np_argsort agg_scores;
            hard_pos_clip_indices =
              map (\<lambda>idx. min (int idx) (ctx_l - 1)) (slice_from (- max_n) sort_indices);
            hard_neg_clip_indices =
              map (\<lambda>idx. min (int idx) (ctx_l - 1)) (slice_to max_n sort_indices)
        in case easy_indices_unbound ctx_l max_n add_easy_negative
                  hard_pos_clip_indices hard_neg_clip_indices of
             Inl e \<Rightarrow> Inl e
           | Inr (easy_pos_clip_indices, easy_neg_clip_indices) \<Rightarrow>
               Inr (hard_pos_clip_indices @ easy_pos_clip_indices,
                    hard_neg_clip_indices @ easy_neg_clip_indices, score_array))"

section \<open>Arrays, annotation records and the dataset object\<close>

text \<open>A numpy array or torch tensor of one or two dimensions (a list of rows).\<close>

datatype ndarray = Arr1 "real list" | Arr2 "real list list"

fun nd_len :: "ndarray \<Rightarrow> nat" where
  "nd_len (Arr1 xs) = length xs"
| "nd_len (Arr2 rows) = length rows"

text \<open>\<^verbatim>\<open>x[:n]\<close> along the first axis.\<close>

fun nd_slice_to :: "int \<Rightarrow> ndarray \<Rightarrow> ndarray" where
  "nd_slice_to n (Arr1 xs) = Arr1 (slice_to n xs)"
| "nd_slice_to n (Arr2 rows) = Arr2 (slice_to n rows)"

text \<open>Concatenation of two-dimensional arrays along axis 1: the arrays need the same
  number of rows.\<close>

fun hstack :: "real list list list \<Rightarrow> real list list" where
  "hstack [] = []"
| "hstack [m] = m"
| "hstack (m # ms) = map (\<lambda>(r, s). r @ s) (zip m (hstack ms))"

fun arr2_rows :: "ndarray \<Rightarrow> real list list option" where
  "arr2_rows (Arr1 xs) = None"
| "arr2_rows (Arr2 rows) = Some rows"

definition concat_axis1 :: "py_error \<Rightarrow> ndarray list \<Rightarrow> py_error + ndarray" where
  "concat_axis1 not_2d arrs =
     (if arrs = [] then Inl ValueError
      else if \<not> list_all (\<lambda>a. arr2_rows a \<noteq> None) arrs then Inl not_2d
      else if \<not> list_all (\<lambda>a. nd_len a = nd_len (hd arrs)) arrs then Inl ValueError
      else Inr (Arr2 (hstack (map (\<lambda>a. the (arr2_rows a)) arrs))))"

text \<open>\<^verbatim>\<open>np.concatenate([a, b], axis=-1)\<close>: the last axis of both arrays.\<close>

fun concat_last :: "ndarray \<Rightarrow> ndarray \<Rightarrow> py_error + ndarray" where
  "concat_last (Arr1 xs) (Arr1 ys) = Inr (Arr1 (xs @ ys))"
| "concat_last (Arr2 a) (Arr2 b) = concat_axis1 AxisError [Arr2 a, Arr2 b]"
| "concat_last _ _ = Inl ValueError"

text \<open>A query or video id: an integer or a string; \<^verbatim>\<open>f"{qid}"\<close> prints it.\<close>

datatype py_id = IntId int | StrId string

fun str_of_nat :: "nat \<Rightarrow> string" where
  "str_of_nat n =
     (if n < 10 then [char_of (48 + n)] else str_of_nat (n div 10) @ [char_of (48 + n mod 10)])"

definition str_of_int :: "int \<Rightarrow> string" where
  "str_of_int i = (if i < 0 then CHR ''-'' # str_of_nat (nat (- i)) else str_of_nat (nat i))"

fun str_of_id :: "py_id \<Rightarrow> string" where
  "str_of_id (IntId i) = str_of_int i"
| "str_of_id (StrId s) = s"

text \<open>\<^verbatim>\<open>sub in s\<close> on strings, \<^verbatim>\<open>os.path.join\<close> of two parts, \<^verbatim>\<open>str.split()\<close> and
  \<^verbatim>\<open>str.lower()\<close> (ASCII).\<close>

fun str_contains :: "string \<Rightarrow> string \<Rightarrow> bool" where
  "str_contains sub [] = (sub = [])"
| "str_contains sub (c # cs) = (take (length sub) (c # cs) = sub \<or> str_contains sub cs)"

definition join :: "string \<Rightarrow> string \<Rightarrow> string" where
  "join a b =
     (if b \<noteq> [] \<and> hd b = CHR ''/'' then b
      else if a = [] \<or> last a = CHR ''/'' then a @ b
      else a @ ''/'' @ b)"

definition is_space :: "char \<Rightarrow> bool" where
  "is_space c = (c \<in> set [CHR '' '', CHR 0x09, CHR 0x0A, CHR 0x0B, CHR 0x0C, CHR 0x0D])"

fun split_words :: "string \<Rightarrow> string \<Rightarrow> string list" where
  "split_words w [] = (if w = [] then [] else [w])"
| "split_words w (c # cs) =
     (if is_space c then (if w = [] then split_words [] cs else w # split_words [] cs)
      else split_words (w @ [c]) cs)"

definition lower_char :: "char \<Rightarrow> char" where
  "lower_char c =
     (if (65 :: nat) \<le> of_char c \<and> of_char c \<le> (90 :: nat)
      then char_of (of_char c + (32 :: nat)) else c)"

text \<open>
  One line of the annotation file, a dictionary: a missing key is \<open>None\<close>, and reading
  it raises KeyError. A window is a pair \<open>[st, ed]\<close> in seconds.
\<close>

record annotation =
  qid :: "py_id option"
  query :: "string option"
  duration :: "real option"
  vid :: "string option"
  relevant_clip_ids :: "int list option"
  relevant_windows :: "(real \<times> real) list option"
  saliency_scores :: "int list list option"
  label :: "real list list option"
  domain :: "string option"

definition py_key :: "'a option \<Rightarrow> py_error + 'a" where
  "py_key v = (case v of None \<Rightarrow> Inl KeyError | Some x \<Rightarrow> Inr x)"

text \<open>
  What the dataset reads from outside the two source files: the annotation file
  through \<^verbatim>\<open>load_jsonl\<close>, the feature files through \<^verbatim>\<open>np.load\<close>, the normalisation
  \<^verbatim>\<open>l2_normalize_np_array\<close> and the pretrained GloVe vocabulary. \<^verbatim>\<open>load_jsonl\<close> and
  \<^verbatim>\<open>l2_normalize_np_array\<close> belong to \<^verbatim>\<open>lighthouse.common.utils.basic_utils\<close>, which
  is not among the sources; they are parameters here, as the files on disk are.
\<close>

record files =
  load_jsonl :: "string \<Rightarrow> py_error + annotation list"
  npz :: "string \<Rightarrow> (string \<Rightarrow> ndarray option) option"
  npy :: "string \<Rightarrow> ndarray option"
  l2_normalize_np_array :: "ndarray \<Rightarrow> ndarray"
  glove_stoi :: "string \<Rightarrow> nat option"
  glove_vectors :: "real list list"
  glove_dim :: nat

definition np_load_npy :: "files \<Rightarrow> string \<Rightarrow> py_error + ndarray" where
  "np_load_npy fs path = (case npy fs path of None \<Rightarrow> Inl FileNotFoundError | Some a \<Rightarrow> Inr a)"

definition np_load_npz :: "files \<Rightarrow> string \<Rightarrow> string \<Rightarrow> py_error + ndarray" where
  "np_load_npz fs path key =
     (case npz fs path of
        None \<Rightarrow> Inl FileNotFoundError
      | Some archive \<Rightarrow> (case archive key of None \<Rightarrow> Inl KeyError | Some a \<Rightarrow> Inr a))"

text \<open>The attributes of a \<^verbatim>\<open>CGDETR_StartEndDataset\<close> (\<open>self_domain\<close> is \<^verbatim>\<open>self.domain\<close>).\<close>

record dataset =
  dset_name :: string
  data_path :: string
  self_domain :: string
  data_ratio :: real
  v_feat_dirs :: "string list"
  q_feat_dir :: string
  q_feat_type :: string
  max_q_l :: int
  max_v_l :: int
  ctx_mode :: string
  use_tef :: bool
  use_video :: bool
  normalize_t :: bool
  normalize_v :: bool
  load_labels :: bool
  clip_len :: real
  max_windows :: int
  span_loss_type :: string
  data :: "annotation list"
  use_glove :: bool
  vocab_stoi :: "string \<Rightarrow> nat option"
  embedding :: "real list list"





definition len :: "dataset \<Rightarrow> nat" where
  "len self = length (data self)"

section \<open>Span labels\<close>

text \<open>The values of the per-example dictionary \<^verbatim>\<open>model_inputs\<close>: a float array or tensor,
  a tensor of \<open>(center, width)\<close> or \<open>(start, end)\<close> rows, a list of integers, a string,
  an id. The dictionary keeps its insertion order.\<close>

datatype py_value =
    Feat ndarray
  | Spans "(real \<times> real) list"
  | LongSpans "(int \<times> int) list"
  | Ints "int list"
  | Str string
  | Ident py_id

type_synonym model_inputs = "(string \<times> py_value) list"

text \<open>Modelled from the spec: \<^verbatim>\<open>span_xx_to_cxw\<close> of \<^verbatim>\<open>lighthouse.common.utils.span_utils\<close> is
  not among the sources. It turns every \<open>(start, end)\<close> row into the \<open>(center, width)\<close>
  encoding of the same window: the midpoint and the length.\<close>

definition span_xx_to_cxw :: "(real \<times> real) list \<Rightarrow> (real \<times> real) list" where
  "span_xx_to_cxw spans = map (\<lambda>(st, ed). ((st + ed) / 2, ed - st)) spans"

text \<open>
  \<^verbatim>\<open>get_span_labels(windows, ctx_l)\<close>. \<^verbatim>\<open>random.shuffle(windows)\<close> works in place on the
  caller's list, so the function returns three things: its result, the caller's list
  as it is left, and the random tape. With \<open>"l1"\<close> the tensor is divided by
  \<open>ctx_l * clip_len\<close> (a tensor division: for a zero divisor the source yields inf/nan,
  which the reals do not have); with \<open>"ce"\<close> the divisions are Python's and raise on
  a zero \<open>clip_len\<close>.
\<close>

definition get_span_labels ::
  "dataset \<Rightarrow> (real \<times> real) list \<Rightarrow> int \<Rightarrow> rng
     \<Rightarrow> (py_error + py_value) \<times> (real \<times> real) list \<times> rng" where
  "get_span_labels self windows ctx_l g =
     (case (if int (length windows) > max_windows self then random_shuffle windows g
            else (windows, g)) of
        (shuffled, g1) \<Rightarrow>
          let used = (if int (length windows) > max_windows self
                      then slice_to (max_windows self) shuffled else shuffled)
          in ((if span_loss_type self = ''l1'' then
                 Inr (Spans (span_xx_to_cxw
                   (map (\<lambda>(st, ed). (st / (real_of_int ctx_l * clip_len self),
                                       ed / (real_of_int ctx_l * clip_len self))) used)))
               else if span_loss_type self = ''ce'' then
                 if used \<noteq> [] \<and> clip_len self = 0 then Inl ZeroDivisionError
                 else Inr (LongSpans
                   (map (\<lambda>(st, ed). (py_int (st / clip_len self),
                                       min (py_int (ed / clip_len self)) ctx_l - 1)) used))
               else Inl NotImplementedError),
              shuffled, g1))"

section \<open>Loading the features of one example\<close>

text \<open>\<^verbatim>\<open>get_query\<close>: the GloVe rows of the lower-cased words; \<^verbatim>\<open>nn.Embedding\<close> raises
  IndexError for an index outside its table.\<close>

definition get_query :: "dataset \<Rightarrow> string \<Rightarrow> py_error + ndarray" where
  "get_query self q =
     (case map_raise
             (\<lambda>w. py_get (embedding self)
                     (int (case vocab_stoi self (map lower_char w) of
                             None \<Rightarrow> 400000 | Some i \<Rightarrow> i)))
             (split_words [] q) of
        Inl e \<Rightarrow> Inl e
      | Inr rows \<Rightarrow> Inr (Arr2 rows))"

text \<open>\<^verbatim>\<open>_get_query_feat_by_qid\<close>. The tacos branch and the default branch differ in the
  file name only; \<open>load_q_feat\<close> is their common part.\<close>

definition load_q_feat :: "dataset \<Rightarrow> files \<Rightarrow> string \<Rightarrow> py_error + ndarray" where
  "load_q_feat self fs q_feat_path =
     (case np_load_npz fs q_feat_path (q_feat_type self) of
        Inl e \<Rightarrow> Inl e
      | Inr q_feat \<Rightarrow>
          let q1 = (if q_feat_type self = ''last_hidden_state''
                    then nd_slice_to (max_q_l self) q_feat else q_feat)
          in Inr (if normalize_t self then l2_normalize_np_array fs q1 else q1))"

definition get_query_feat_by_qid :: "dataset \<Rightarrow> files \<Rightarrow> py_id \<Rightarrow> py_error + ndarray" where
  "get_query_feat_by_qid self fs q =
     (if dset_name self = ''tvsum'' \<or> dset_name self = ''youtube_highlight'' then
        np_load_npz fs (join (q_feat_dir self) (str_of_id q @ ''.npz''))
          (if dset_name self = ''tvsum'' then ''token'' else ''last_hidden_state'')
      else if dset_name self = ''tacos'' then
        load_q_feat self fs (join (q_feat_dir self) (str_of_id q @ ''.npz''))
      else
        load_q_feat self fs (join (q_feat_dir self) (''qid'' @ str_of_id q @ ''.npz'')))"

text \<open>\<^verbatim>\<open>_get_video_feat_by_vid\<close>, one directory: whatever the \<^verbatim>\<open>try\<close> block raises, the
  bare \<^verbatim>\<open>except\<close> loads \<^verbatim>\<open>{vid}.npy\<close> instead.\<close>

definition load_v_feat :: "dataset \<Rightarrow> files \<Rightarrow> string \<Rightarrow> string \<Rightarrow> py_error + ndarray" where
  "load_v_feat self fs v feat_dir =
     (case (if dset_name self = ''tvsum'' \<and> str_contains ''i3d'' feat_dir then
              case np_load_npy fs (join feat_dir (v @ ''_rgb.npy'')) of
                Inl e \<Rightarrow> Inl e
              | Inr rgb \<Rightarrow>
                  (case np_load_npy fs (join feat_dir (v @ ''_opt.npy'')) of
                     Inl e \<Rightarrow> Inl e
                   | Inr opt \<Rightarrow>
                       concat_last (nd_slice_to (max_v_l self) rgb)
                                   (nd_slice_to (max_v_l self) opt))
            else
              case np_load_npz fs (join feat_dir (v @ ''.npz'')) ''features'' of
                Inl e \<Rightarrow> Inl e
              | Inr f \<Rightarrow> Inr (nd_slice_to (max_v_l self) f)) of
        Inr feat \<Rightarrow> Inr feat
      | Inl _ \<Rightarrow>
          (case np_load_npy fs (join feat_dir (v @ ''.npy'')) of
             Inl e \<Rightarrow> Inl e
           | Inr f \<Rightarrow> Inr (nd_slice_to (max_v_l self) f)))"

definition get_video_feat_by_vid :: "dataset \<Rightarrow> files \<Rightarrow> string \<Rightarrow> py_error + ndarray" where
  "get_video_feat_by_vid self fs v =
     (case map_raise
             (\<lambda>feat_dir. case load_v_feat self fs v feat_dir of
                             Inl e \<Rightarrow> Inl e
                           | Inr feat \<Rightarrow>
                               Inr (if normalize_v self then l2_normalize_np_array fs feat
                                    else feat))
             (v_feat_dirs self) of
        Inl e \<Rightarrow> Inl e
      | Inr v_feat_list \<Rightarrow>
          if v_feat_list = [] then Inl ValueError
          else let min_len = Min (set (map nd_len v_feat_list))
               in concat_axis1 AxisError (map (nd_slice_to (int min_len)) v_feat_list))"

text \<open>The temporal-encoding features: row \<open>i\<close> is \<open>[i / ctx_l, i / ctx_l + 1 / ctx_l]\<close>.\<close>

definition tef_rows :: "int \<Rightarrow> real list list" where
  "tef_rows ctx_l =
     map (\<lambda>i. [real_of_int i / real_of_int ctx_l,
                real_of_int i / real_of_int ctx_l + 1 / real_of_int ctx_l])
         (py_range 0 ctx_l)"

text \<open>The first half of \<^verbatim>\<open>__getitem__\<close>: the query and video features and \<open>ctx_l\<close>.
  \<^verbatim>\<open>1.0 / ctx_l\<close> is a Python division and raises for \<open>ctx_l = 0\<close>.\<close>

definition item_features ::
  "dataset \<Rightarrow> files \<Rightarrow> annotation \<Rightarrow> py_error + (model_inputs \<times> int)" where
  "item_features self fs meta =
     (case (if use_glove self then
              case py_key (query meta) of Inl e \<Rightarrow> Inl e | Inr q \<Rightarrow> get_query self q
            else
              case py_key (qid meta) of
                Inl e \<Rightarrow> Inl e
              | Inr q \<Rightarrow> get_query_feat_by_qid self fs q) of
        Inl e \<Rightarrow> Inl e
      | Inr query_feat \<Rightarrow>
     case (if use_video self then
             case py_key (vid meta) of
               Inl e \<Rightarrow> Inl e
             | Inr v \<Rightarrow>
                 (case get_video_feat_by_vid self fs v of
                    Inl e \<Rightarrow> Inl e
                  | Inr vf \<Rightarrow> Inr ([(''query_feat'', Feat query_feat), (''video_feat'', Feat vf)],
                                   vf, int (nd_len vf)))
           else Inr ([(''query_feat'', Feat query_feat)], Arr2 [], max_v_l self)) of
        Inl e \<Rightarrow> Inl e
      | Inr (mi, vf, ctx_l) \<Rightarrow>
          if use_tef self then
            if ctx_l = 0 then Inl ZeroDivisionError
            else if use_video self then
              case concat_axis1 RuntimeError [vf, Arr2 (tef_rows ctx_l)] of
                Inl e \<Rightarrow> Inl e
              | Inr c \<Rightarrow> Inr (AList.update ''video_feat'' (Feat c) mi, ctx_l)
            else Inr (AList.update ''video_feat'' (Feat (Arr2 (tef_rows ctx_l))) mi, ctx_l)
          else Inr (mi, ctx_l))"

section \<open>The labels of one example\<close>

definition add_saliency :: "model_inputs \<Rightarrow> int list \<times> int list \<times> real list \<Rightarrow> model_inputs" where
  "add_saliency mi r =
     (case r of (pos, neg, all_labels) \<Rightarrow>
        AList.update ''saliency_all_labels'' (Feat (Arr1 all_labels))
          (AList.update ''saliency_neg_labels'' (Ints neg)
             (AList.update ''saliency_pos_labels'' (Ints pos) mi)))"

text \<open>The tvsum branch: after the labels, the video features are cut to the length of
  the saliency labels when the two lengths differ.\<close>

definition truncate_video_feat :: "model_inputs \<Rightarrow> py_error + model_inputs" where
  "truncate_video_feat mi =
     (case map_of mi ''saliency_all_labels'' of
        Some (Feat sal) \<Rightarrow>
          (case map_of mi ''video_feat'' of
             None \<Rightarrow> Inl KeyError
           | Some (Feat vf) \<Rightarrow>
               if nd_len sal \<noteq> nd_len vf
               then Inr (AList.update ''video_feat'' (Feat (nd_slice_to (int (nd_len sal)) vf)) mi)
               else Inr mi
           | Some _ \<Rightarrow> Inl TypeError)
      | _ \<Rightarrow> Inl KeyError)"

definition labels_tvsum :: "annotation \<Rightarrow> model_inputs \<Rightarrow> int \<Rightarrow> py_error + model_inputs" where
  "labels_tvsum meta mi ctx_l =
     (case py_key (label meta) of
        Inl e \<Rightarrow> Inl e
      | Inr meta_label \<Rightarrow>
          (case get_saliency_labels_all_tvsum meta_label ctx_l 1 False of
             Inl e \<Rightarrow> Inl e
           | Inr r \<Rightarrow>
               truncate_video_feat
                 (add_saliency (AList.update ''span_labels'' (Spans [(0, 0)]) mi) r)))"

definition labels_youtube :: "annotation \<Rightarrow> model_inputs \<Rightarrow> int \<Rightarrow> py_error + model_inputs" where
  "labels_youtube meta mi ctx_l =
     (case py_key (label meta) of
        Inl e \<Rightarrow> Inl e
      | Inr meta_label \<Rightarrow>
          (case get_saliency_labels_all_youtube meta_label ctx_l 1 False of
             Inl e \<Rightarrow> Inl e
           | Inr r \<Rightarrow> Inr (add_saliency (AList.update ''span_labels'' (Spans [(0, 0)]) mi) r)))"

text \<open>The saliency labels of the moment-retrieval datasets, read from the record as
  \<^verbatim>\<open>get_span_labels\<close> left it (\<^verbatim>\<open>meta["relevant_windows"][0]\<close> is the first window
  after the shuffle). After an exception the tape is the one before the failing call.\<close>

definition moment_saliency ::
  "dataset \<Rightarrow> annotation \<Rightarrow> (real \<times> real) list \<Rightarrow> model_inputs \<Rightarrow> int \<Rightarrow> rng
     \<Rightarrow> (py_error + model_inputs) \<times> rng" where
  "moment_saliency self meta windows mi ctx_l g =
     (if dset_name self = ''qvhighlight'' then
        case py_key (relevant_clip_ids meta) of
          Inl e \<Rightarrow> (Inl e, g)
        | Inr ids \<Rightarrow>
            (case py_key (saliency_scores meta) of
               Inl e \<Rightarrow> (Inl e, g)
             | Inr scores \<Rightarrow>
                 (case get_saliency_labels_all ids scores ctx_l 1 True g of
                    Inl e \<Rightarrow> (Inl e, g)
                  | Inr (r, g') \<Rightarrow> (Inr (add_saliency mi r), g')))
      else if dset_name self \<in> set [''charades'', ''tacos'', ''activitynet''] then
        case py_get windows 0 of
          Inl e \<Rightarrow> (Inl e, g)
        | Inr w \<Rightarrow>
            (case py_key (duration meta) of
               Inl e \<Rightarrow> (Inl e, g)
             | Inr d \<Rightarrow>
                 (case get_saliency_labels_sub_as_query (dset_name self) w d ctx_l 2 g of
                    Inl e \<Rightarrow> (Inl e, g)
                  | Inr (r, g') \<Rightarrow> (Inr (add_saliency mi r), g')))
      else (Inl NotImplementedError, g))"

definition add_relevant_clip_ids ::
  "dataset \<Rightarrow> annotation \<Rightarrow> model_inputs \<Rightarrow> py_error + model_inputs" where
  "add_relevant_clip_ids self meta mi =
     (if dset_name self = ''qvhighlight'' then
        case py_key (relevant_clip_ids meta) of
          Inl e \<Rightarrow> Inl e
        | Inr ids \<Rightarrow> Inr (AList.update ''relevant_clip_ids'' (Ints ids) mi)
      else Inr mi)"

definition labels_moment ::
  "dataset \<Rightarrow> annotation \<Rightarrow> model_inputs \<Rightarrow> int \<Rightarrow> rng
     \<Rightarrow> (py_error + model_inputs) \<times> annotation \<times> rng" where
  "labels_moment self meta mi ctx_l g =
     (case relevant_windows meta of
        None \<Rightarrow> (add_relevant_clip_ids self meta mi, meta, g)
      | Some windows \<Rightarrow>
          (case get_span_labels self windows ctx_l g of
             (r, windows', g1) \<Rightarrow>
               let meta' = meta\<lparr>relevant_windows := Some windows'\<rparr> in
               (case r of
                  Inl e \<Rightarrow> (Inl e, meta', g1)
                | Inr spans \<Rightarrow>
                    (case moment_saliency self meta' windows'
                            (AList.update ''span_labels'' spans mi) ctx_l g1 of
                       (Inl e, g2) \<Rightarrow> (Inl e, meta', g2)
                     | (Inr mi2, g2) \<Rightarrow> (add_relevant_clip_ids self meta' mi2, meta', g2)))))"

definition item_labels ::
  "dataset \<Rightarrow> annotation \<Rightarrow> model_inputs \<Rightarrow> int \<Rightarrow> rng
     \<Rightarrow> (py_error + model_inputs) \<times> annotation \<times> rng" where
  "item_labels self meta mi ctx_l g =
     (if dset_name self = ''tvsum'' then (labels_tvsum meta mi ctx_l, meta, g)
      else if dset_name self = ''youtube_highlight'' then (labels_youtube meta mi ctx_l, meta, g)
      else labels_moment self meta mi ctx_l g)"

section \<open>\<^verbatim>\<open>__getitem__\<close>\<close>

text \<open>
  \<^verbatim>\<open>__getitem__(index)\<close> returns its outcome (an exception, or the record \<open>meta\<close> and
  the dictionary \<open>model_inputs\<close>), the dataset object as the call leaves it, and the
  random tape. \<open>meta\<close> is the stored record itself, so what \<^verbatim>\<open>get_span_labels\<close> does
  to its window list is done to \<^verbatim>\<open>self.data[index]\<close>.
\<close>

definition py_index :: "int \<Rightarrow> nat \<Rightarrow> nat" where
  "py_index i n = nat (if i < 0 then i + int n else i)"

definition getitem ::
  "dataset \<Rightarrow> files \<Rightarrow> int \<Rightarrow> rng
     \<Rightarrow> (py_error + (annotation \<times> model_inputs)) \<times> dataset \<times> rng" where
  "getitem self fs index g =
     (case py_get (data self) index of
        Inl e \<Rightarrow> (Inl e, self, g)
      | Inr meta \<Rightarrow>
          (case item_features self fs meta of
             Inl e \<Rightarrow> (Inl e, self, g)
           | Inr (mi, ctx_l) \<Rightarrow>
               (case (if load_labels self then item_labels self meta mi ctx_l g
                      else (Inr mi, meta, g)) of
                  (r, meta', g') \<Rightarrow>
                    let self' = self\<lparr>data := (data self)[py_index index (length (data self)) := meta']\<rparr>
                    in (case r of
                          Inl e \<Rightarrow> (Inl e, self', g')
                        | Inr mi1 \<Rightarrow>
                            (case py_key (vid meta') of
                               Inl e \<Rightarrow> (Inl e, self', g')
                             | Inr v \<Rightarrow>
                                 (case py_key (qid meta') of
                                    Inl e \<Rightarrow> (Inl e, self', g')
                                  | Inr q \<Rightarrow>
                                      (Inr (meta',
                                            AList.update ''qid'' (Ident q)
                                              (AList.update ''vid'' (Str v) mi1)),
                                       self', g')))))))"

text \<open>What \<^verbatim>\<open>__getitem__\<close> may do to a stored record: a record with more than
  \<open>max_windows\<close> relevant windows gets its window list reordered (the same windows,
  each as often as before); nothing else changes.\<close>

definition windows_reordered :: "dataset \<Rightarrow> annotation \<Rightarrow> annotation \<Rightarrow> bool" where
  "windows_reordered self m m' =
     (case (relevant_windows m, relevant_windows m') of
        (Some ws, Some ws') \<Rightarrow>
          max_windows self < int (length ws) \<and> mset ws' = mset ws
          \<and> m' = m\<lparr>relevant_windows := Some ws'\<rparr>
      | _ \<Rightarrow> False)"

section \<open>Collation\<close>

text \<open>
  A torch tensor of a batch: its device and its data, a batch of one-dimensional
  sequences (\<open>F2\<close>), of two-dimensional ones (\<open>F3\<close>), or of integer rows (\<open>L2\<close>).
  \<^verbatim>\<open>.to(device)\<close> changes the device and nothing else.
\<close>

type_synonym device = string

datatype tensor_data = F2 "real list list" | F3 "real list list list" | L2 "int list list"

datatype tensor = Tensor device tensor_data

fun to_device :: "device \<Rightarrow> tensor \<Rightarrow> tensor" where
  "to_device dev (Tensor _ x) = Tensor dev x"

text \<open>\<^verbatim>\<open>dict(spans=t)\<close>: the span tensor of one example and the device it is on (the
  dataset builds its tensors on the CPU).\<close>

datatype span_dict = SpanDict py_value device

text \<open>The values of a collated batch: a list of span dictionaries, a tensor, a plain
  list, or the pair (padded tensor, mask) that \<^verbatim>\<open>pad_sequences_1d\<close> returns.\<close>

datatype batched =
    SpanDicts "span_dict list"
  | BTensor tensor
  | BList "py_value list"
  | BPair tensor tensor

type_synonym batch_dict = "(string \<times> batched) list"

text \<open>A sequence of numbers and a sequence of rows, and the length of either.\<close>

fun as_seq1 :: "py_value \<Rightarrow> real list option" where
  "as_seq1 (Feat (Arr1 xs)) = Some xs"
| "as_seq1 (Ints is) = Some (map real_of_int is)"
| "as_seq1 _ = None"

fun as_seq2 :: "py_value \<Rightarrow> real list list option" where
  "as_seq2 (Feat (Arr2 rows)) = Some rows"
| "as_seq2 _ = None"

definition seq_len :: "py_value \<Rightarrow> nat" where
  "seq_len v = (case as_seq1 v of Some xs \<Rightarrow> length xs
                | None \<Rightarrow> (case as_seq2 v of Some rows \<Rightarrow> length rows | None \<Rightarrow> 0))"

definition pad_to :: "nat \<Rightarrow> 'a \<Rightarrow> 'a list \<Rightarrow> 'a list" where
  "pad_to n z xs = xs @ replicate (n - length xs) z"

definition mask_of :: "nat \<Rightarrow> nat \<Rightarrow> real list" where
  "mask_of n l = replicate l 1 @ replicate (n - l) 0"

text \<open>Modelled from the spec: \<^verbatim>\<open>pad_sequences_1d\<close> of \<^verbatim>\<open>lighthouse.common.utils.tensor_utils\<close>
  is not among the sources. Variable-length sequences are padded into a rectangular
  batch with a mask: every sequence is extended with zeros to the longest length of the
  batch, and the mask of an example is 1 on its own positions and 0 on the padding. The
  sequences are all one-dimensional or all two-dimensional with rows of one width;
  anything else is refused.\<close>

definition pad_sequences_1d :: "py_value list \<Rightarrow> py_error + (tensor_data \<times> real list list)" where
  "pad_sequences_1d sequences =
     (if sequences = [] then Inl IndexError
      else let n = Max (set (map seq_len sequences));
               mask = map (\<lambda>s. mask_of n (seq_len s)) sequences
           in if list_all (\<lambda>s. as_seq1 s \<noteq> None) sequences then
                Inr (F2 (map (\<lambda>s. pad_to n 0 (the (as_seq1 s))) sequences), mask)
              else if list_all (\<lambda>s. as_seq2 s \<noteq> None) sequences then
                let all_rows = concat (map (\<lambda>s. the (as_seq2 s)) sequences);
                    d = (case all_rows of [] \<Rightarrow> 0 | r # _ \<Rightarrow> length r)
                in if list_all (\<lambda>r. length r = d) all_rows then
                     Inr (F3 (map (\<lambda>s. pad_to n (replicate d 0) (the (as_seq2 s))) sequences),
                          mask)
                   else Inl ValueError
              else Inl TypeError)"

text \<open>The lengths of the padded sequences of a batch tensor, one per example.\<close>

fun padded_lengths :: "tensor_data \<Rightarrow> nat list" where
  "padded_lengths (F2 xs) = map length xs"
| "padded_lengths (F3 ms) = map length ms"
| "padded_lengths (L2 is) = map length is"

text \<open>\<^verbatim>\<open>torch.LongTensor([...])\<close> of the per-example index lists: lists of integers of one
  length.\<close>

fun as_ints :: "py_value \<Rightarrow> int list option" where
  "as_ints (Ints is) = Some is"
| "as_ints _ = None"

definition long_tensor :: "py_value list \<Rightarrow> py_error + tensor" where
  "long_tensor vals =
     (if \<not> list_all (\<lambda>v. as_ints v \<noteq> None) vals then Inl TypeError
      else if \<not> rectangular (map (\<lambda>v. the (as_ints v)) vals) then Inl ValueError
      else Inr (Tensor ''cpu'' (L2 (map (\<lambda>v. the (as_ints v)) vals))))"

text \<open>
  One key of \<^verbatim>\<open>cg_detr_start_end_collate\<close>. Every branch of the source starts with the
  comprehension \<^verbatim>\<open>[e["model_inputs"][k] for e in batch]\<close> (KeyError when an example
  lacks the key), so it is read once, before the branch is chosen. For
  \<open>saliency_all_labels\<close> the mask that \<^verbatim>\<open>pad_sequences_1d\<close> returns is dropped.
\<close>

definition collate_key ::
  "(annotation \<times> model_inputs) list \<Rightarrow> string \<Rightarrow> py_error + batched" where
  "collate_key batch k =
     (case map_raise (\<lambda>e. py_key (map_of (snd e) k)) batch of
        Inl e \<Rightarrow> Inl e
      | Inr vals \<Rightarrow>
          if k = ''span_labels'' then Inr (SpanDicts (map (\<lambda>v. SpanDict v ''cpu'') vals))
          else if k \<in> set [''saliency_pos_labels'', ''saliency_neg_labels''] then
            (case long_tensor vals of Inl e \<Rightarrow> Inl e | Inr t \<Rightarrow> Inr (BTensor t))
          else if k = ''saliency_all_labels'' then
            (case pad_sequences_1d vals of
               Inl e \<Rightarrow> Inl e
             | Inr (pad_data, mask_data) \<Rightarrow> Inr (BTensor (Tensor ''cpu'' pad_data)))
          else if k = ''qid'' then Inr (BList vals)
          else if k = ''vid'' then Inr (BList vals)
          else
            (case pad_sequences_1d vals of
               Inl e \<Rightarrow> Inl e
             | Inr (pad_data, mask_data) \<Rightarrow>
                 Inr (BPair (Tensor ''cpu'' pad_data) (Tensor ''cpu'' (F2 mask_data)))))"

text \<open>\<^verbatim>\<open>cg_detr_start_end_collate(batch)\<close>: an example is the pair of its \<open>meta\<close> and its
  \<open>model_inputs\<close>; the keys are those of the first example.\<close>

definition cg_detr_start_end_collate ::
  "(annotation \<times> model_inputs) list \<Rightarrow> py_error + (annotation list \<times> batch_dict)" where
  "cg_detr_start_end_collate batch =
     (case batch of
        [] \<Rightarrow> Inl IndexError
      | e0 # _ \<Rightarrow>
          (case map_raise (\<lambda>k. case collate_key batch k of
                                   Inl e \<Rightarrow> Inl e
                                 | Inr v \<Rightarrow> Inr (k, v))
                  (map fst (snd e0)) of
             Inl e \<Rightarrow> Inl e
           | Inr batched_data \<Rightarrow> Inr (map fst batch, batched_data)))"

section \<open>Moving a batch to the device\<close>

definition pair_item :: "batched \<Rightarrow> nat \<Rightarrow> py_error + tensor" where
  "pair_item b i =
     (case b of
        BPair p m \<Rightarrow> (if i = 0 then Inr p else if i = 1 then Inr m else Inl IndexError)
      | _ \<Rightarrow> Inl TypeError)"

definition batched_to :: "device \<Rightarrow> batched \<Rightarrow> py_error + batched" where
  "batched_to dev b =
     (case b of BTensor t \<Rightarrow> Inr (BTensor (to_device dev t)) | _ \<Rightarrow> Inl AttributeError)"

fun is_tensor :: "py_value \<Rightarrow> bool" where
  "is_tensor (Feat _) = True"
| "is_tensor (Spans _) = True"
| "is_tensor (LongSpans _) = True"
| "is_tensor _ = False"

definition spans_to :: "device \<Rightarrow> batched \<Rightarrow> py_error + batched" where
  "spans_to dev b =
     (case b of
        SpanDicts ds \<Rightarrow>
          (case map_raise (\<lambda>d. case d of SpanDict v _ \<Rightarrow>
                                  if is_tensor v then Inr (SpanDict v dev)
                                  else Inl AttributeError) ds of
             Inl e \<Rightarrow> Inl e
           | Inr moved \<Rightarrow> Inr (SpanDicts moved))
      | _ \<Rightarrow> Inl TypeError)"

text \<open>The six keyword arguments of the model, in the order of the source.\<close>

definition prepare_model_inputs :: "batch_dict \<Rightarrow> device \<Rightarrow> py_error + batch_dict" where
  "prepare_model_inputs b dev =
     (case py_key (map_of b ''query_feat'') of Inl e \<Rightarrow> Inl e | Inr qf \<Rightarrow>
      case pair_item qf 0 of Inl e \<Rightarrow> Inl e | Inr src_txt \<Rightarrow>
      case pair_item qf 1 of Inl e \<Rightarrow> Inl e | Inr src_txt_mask \<Rightarrow>
      case py_key (map_of b ''video_feat'') of Inl e \<Rightarrow> Inl e | Inr vf \<Rightarrow>
      case pair_item vf 0 of Inl e \<Rightarrow> Inl e | Inr src_vid \<Rightarrow>
      case pair_item vf 1 of Inl e \<Rightarrow> Inl e | Inr src_vid_mask \<Rightarrow>
      case py_key (map_of b ''vid'') of Inl e \<Rightarrow> Inl e | Inr v \<Rightarrow>
      case py_key (map_of b ''qid'') of Inl e \<Rightarrow> Inl e | Inr q \<Rightarrow>
        Inr [(''src_txt'', BTensor (to_device dev src_txt)),
             (''src_txt_mask'', BTensor (to_device dev src_txt_mask)),
             (''src_vid'', BTensor (to_device dev src_vid)),
             (''src_vid_mask'', BTensor (to_device dev src_vid_mask)),
             (''vid'', v), (''qid'', q)])"

text \<open>The three optional groups of targets, each added when its key is in the batch.\<close>

definition targets_spans :: "batch_dict \<Rightarrow> device \<Rightarrow> batch_dict \<Rightarrow> py_error + batch_dict" where
  "targets_spans b dev targets =
     (case map_of b ''span_labels'' of
        None \<Rightarrow> Inr targets
      | Some s \<Rightarrow>
          (case spans_to dev s of
             Inl e \<Rightarrow> Inl e
           | Inr moved \<Rightarrow> Inr (AList.update ''span_labels'' moved targets)))"

definition targets_pos_neg :: "batch_dict \<Rightarrow> device \<Rightarrow> batch_dict \<Rightarrow> py_error + batch_dict" where
  "targets_pos_neg b dev targets =
     (case map_of b ''saliency_pos_labels'' of
        None \<Rightarrow> Inr targets
      | Some pos \<Rightarrow>
          (case batched_to dev pos of
             Inl e \<Rightarrow> Inl e
           | Inr pos' \<Rightarrow>
               (case py_key (map_of b ''saliency_neg_labels'') of
                  Inl e \<Rightarrow> Inl e
                | Inr neg \<Rightarrow>
                    (case batched_to dev neg of
                       Inl e \<Rightarrow> Inl e
                     | Inr neg' \<Rightarrow>
                         Inr (AList.update ''saliency_neg_labels'' neg'
                                (AList.update ''saliency_pos_labels'' pos' targets))))))"

definition targets_all :: "batch_dict \<Rightarrow> device \<Rightarrow> batch_dict \<Rightarrow> py_error + batch_dict" where
  "targets_all b dev targets =
     (case map_of b ''saliency_all_labels'' of
        None \<Rightarrow> Inr targets
      | Some a \<Rightarrow>
          (case batched_to dev a of
             Inl e \<Rightarrow> Inl e
           | Inr a' \<Rightarrow>
               Inr (AList.update ''relevant_clips'' a'
                      (AList.update ''saliency_all_labels'' a' targets))))"

text \<open>\<^verbatim>\<open>cg_detr_prepare_batch_inputs(batched_model_inputs, device, non_blocking=False)\<close>;
  \<open>non_blocking\<close> only tunes the copy. The targets are \<open>None\<close> when the dictionary
  stayed empty.\<close>

definition cg_detr_prepare_batch_inputs ::
  "batch_dict \<Rightarrow> device \<Rightarrow> bool \<Rightarrow> py_error + (batch_dict \<times> batch_dict option)" where
  "cg_detr_prepare_batch_inputs batched_model_inputs dev non_blocking =
     (case prepare_model_inputs batched_model_inputs dev of Inl e \<Rightarrow> Inl e | Inr model_inputs \<Rightarrow>
      case targets_spans batched_model_inputs dev [] of Inl e \<Rightarrow> Inl e | Inr t1 \<Rightarrow>
      case targets_pos_neg batched_model_inputs dev t1 of Inl e \<Rightarrow> Inl e | Inr t2 \<Rightarrow>
      case targets_all batched_model_inputs dev t2 of Inl e \<Rightarrow> Inl e | Inr t3 \<Rightarrow>
        Inr (model_inputs, if length t3 = 0 then None else Some t3))"

section \<open>Concrete datasets\<close>

text \<open>A feature store with the query features of the ids 1 and \<open>q1\<close> and the video
  features of \<open>v1\<close> (two clips); the normalisation is left out.\<close>

definition demo_files :: files where
  "demo_files =
     \<lparr> load_jsonl = (\<lambda>path. Inl FileNotFoundError),
       npz = (\<lambda>path.
                if path = ''q/qid1.npz''
                then Some (\<lambda>key. if key = ''last_hidden_state'' then Some (Arr2 [[1]]) else None)
                else if path = ''q/q1.npz''
                then Some (\<lambda>key. if key = ''token'' then Some (Arr2 [[1]]) else None)
                else if path = ''v/v1.npz''
                then Some (\<lambda>key. if key = ''features'' then Some (Arr2 [[1], [1]]) else None)
                else None),
       npy = (\<lambda>path. None),
       l2_normalize_np_array = (\<lambda>a. a),
       glove_stoi = (\<lambda>w. None),
       glove_vectors = [],
       glove_dim = 0 \<rparr>"

text \<open>A QVHighlights record with two relevant windows, in a dataset that uses one.\<close>

definition demo_record :: annotation where
  "demo_record =
     \<lparr> qid = Some (IntId 1), query = Some ''a man walks'', duration = Some 4,
       vid = Some ''v1'', relevant_clip_ids = Some [0, 1],
       relevant_windows = Some [(0, 2), (2, 4)],
       saliency_scores = Some [[1, 1, 1], [2, 2, 2]], label = None, domain = None \<rparr>"

definition demo_qv :: dataset where
  "demo_qv =
     \<lparr> dset_name = ''qvhighlight'', data_path = ''train.jsonl'', self_domain = '''',
       data_ratio = 1, v_feat_dirs = [''v''], q_feat_dir = ''q'',
       q_feat_type = ''last_hidden_state'', max_q_l = 32, max_v_l = 75,
       ctx_mode = ''video'', use_tef = False, use_video = True,
       normalize_t = False, normalize_v = False, load_labels = True,
       clip_len = 2, max_windows = 1, span_loss_type = ''l1'',
       data = [demo_record], use_glove = False, vocab_stoi = Map.empty, embedding = [] \<rparr>"

text \<open>A TVSum record with three annotated clips for a video of two feature rows.\<close>

definition demo_tvsum_record :: annotation where
  "demo_tvsum_record =
     \<lparr> qid = Some (StrId ''q1''), query = None, duration = None,
       vid = Some ''v1'', relevant_clip_ids = None, relevant_windows = None,
       saliency_scores = None, label = Some [[1, 2], [3, 4], [1, 1]], domain = Some ''BK'' \<rparr>"

definition demo_tvsum :: dataset where
  "demo_tvsum = demo_qv\<lparr>dset_name := ''tvsum'', self_domain := ''BK'', data := [demo_tvsum_record]\<rparr>"

text \<open>The same with a single annotated clip: fewer labels than feature rows.\<close>

definition demo_tvsum_short :: dataset where
  "demo_tvsum_short = demo_tvsum\<lparr>data := [demo_tvsum_record\<lparr>label := Some [[1, 2]]\<rparr>]\<rparr>"

text \<open>Two collatable examples: a query of one token with a video of two clips, and a
  query of two tokens with a video of three clips.\<close>

definition demo_item_a :: "annotation \<times> model_inputs" where
  "demo_item_a =
     (demo_record,
      [(''query_feat'', Feat (Arr2 [[1]])),
       (''video_feat'', Feat (Arr2 [[1], [1]])),
       (''span_labels'', Spans [(1 / 4, 1 / 2)]),
       (''saliency_pos_labels'', Ints [1, 1]),
       (''saliency_neg_labels'', Ints [0, 0]),
       (''saliency_all_labels'', Feat (Arr1 [3, 6])),
       (''vid'', Str ''v1''), (''qid'', Ident (IntId 1))])"

definition demo_item_b :: "annotation \<times> model_inputs" where
  "demo_item_b =
     (demo_record\<lparr>qid := Some (IntId 2), vid := Some ''v2''\<rparr>,
      [(''query_feat'', Feat (Arr2 [[2], [3]])),
       (''video_feat'', Feat (Arr2 [[4], [5], [6]])),
       (''span_labels'', Spans [(1 / 2, 1), (1 / 3, 1 / 3)]),
       (''saliency_pos_labels'', Ints [2, 0]),
       (''saliency_neg_labels'', Ints [1, 1]),
       (''saliency_all_labels'', Feat (Arr1 [7, 8, 9])),
       (''vid'', Str ''v2''), (''qid'', Ident (IntId 2))])"

text \<open>The two examples collated.\<close>

definition demo_batch :: batch_dict where
  "demo_batch =
     [(''query_feat'',
       BPair (Tensor ''cpu'' (F3 [[[1], [0]], [[2], [3]]]))
             (Tensor ''cpu'' (F2 [[1, 0], [1, 1]]))),
      (''video_feat'',
       BPair (Tensor ''cpu'' (F3 [[[1], [1], [0]], [[4], [5], [6]]]))
             (Tensor ''cpu'' (F2 [[1, 1, 0], [1, 1, 1]]))),
      (''span_labels'',
       SpanDicts [SpanDict (Spans [(1 / 4, 1 / 2)]) ''cpu'',
                  SpanDict (Spans [(1 / 2, 1), (1 / 3, 1 / 3)]) ''cpu'']),
      (''saliency_pos_labels'', BTensor (Tensor ''cpu'' (L2 [[1, 1], [2, 0]]))),
      (''saliency_neg_labels'', BTensor (Tensor ''cpu'' (L2 [[0, 0], [1, 1]]))),
      (''saliency_all_labels'', BTensor (Tensor ''cpu'' (F2 [[3, 6, 0], [7, 8, 9]]))),
      (''vid'', BList [Str ''v1'', Str ''v2'']),
      (''qid'', BList [Ident (IntId 1), Ident (IntId 2)])]"

section \<open>Properties\<close>

subsection \<open>The random source\<close>

lemma randbelow_less: "0 < n \<Longrightarrow> fst (randbelow n g) < n"
  by (cases g) auto

lemma sample_from_subset:
  "k \<le> length pool \<Longrightarrow> set (fst (sample_from pool k g)) \<subseteq> set pool"
proof (induction k arbitrary: pool g)
  case 0
  then show ?case by simp
next
  case (Suc k)
  obtain j g1 where r: "randbelow (length pool) g = (j, g1)"
    by (cases "randbelow (length pool) g")
  obtain rest g2 where s: "sample_from (remove_nth j pool) k g1 = (rest, g2)"
    by (cases "sample_from (remove_nth j pool) k g1")
  from Suc.prems have pos: "0 < length pool" by (cases pool) auto
  with r randbelow_less [of "length pool" g] have j: "j < length pool" by simp
  then have len: "length (remove_nth j pool) = length pool - 1"
    by (simp add: remove_nth_def min_def)
  with Suc.prems have "k \<le> length (remove_nth j pool)" by simp
  from Suc.IH [OF this, of g1] s have "set rest \<subseteq> set (remove_nth j pool)" by simp
  moreover have "set (remove_nth j pool) \<subseteq> set pool"
    unfolding remove_nth_def by (auto dest: in_set_takeD in_set_dropD)
  ultimately show ?case using r s j by auto
qed

lemma random_sample_subset:
  "random_sample pool k g = Inr (xs, g') \<Longrightarrow> set xs \<subseteq> set pool"
proof -
  assume a: "random_sample pool k g = Inr (xs, g')"
  then have k: "nat k \<le> length pool" and s: "sample_from pool (nat k) g = (xs, g')"
    by (auto simp: random_sample_def split: if_splits)
  from sample_from_subset [OF k, of g] s show ?thesis by simp
qed

subsection \<open>Rounding\<close>


lemma pow2_pos: "0 < pow2 e"
  by (simp add: pow2_def)

lemma round_even_of_int: "round_even (real_of_int m) = m"
  by (simp add: round_even_def)

lemma round_even_ge_floor: "\<lfloor>y\<rfloor> \<le> round_even y"
  by (simp add: round_even_def Let_def)

lemma pow2_powr: "pow2 e = 2 powr (real_of_int e)"
  by (simp add: pow2_def powr_int)

lemma pow2_mono: "a \<le> b \<Longrightarrow> pow2 a \<le> pow2 b"
  by (simp add: pow2_powr)

lemma pow2_expo_le:
  assumes "0 < x"
  shows "pow2 (expo x) \<le> x"
proof (cases "1 \<le> x")
  case True
  then have n: "0 < \<lfloor>x\<rfloor>" by simp
  from bitlen_bounds [OF n] have "2 ^ nat (bitlen \<lfloor>x\<rfloor> - 1) \<le> \<lfloor>x\<rfloor>" by simp
  then have "(2::real) ^ nat (bitlen \<lfloor>x\<rfloor> - 1) \<le> real_of_int \<lfloor>x\<rfloor>"
    by (metis of_int_le_iff of_int_numeral of_int_power)
  also have "\<dots> \<le> x" by simp
  finally have "(2::real) ^ nat (bitlen \<lfloor>x\<rfloor> - 1) \<le> x" .
  moreover from n have "1 \<le> bitlen \<lfloor>x\<rfloor>" by (simp add: bitlen_alt_def)
  ultimately show ?thesis using True assms by (simp add: expo_def pow2_def)
next
  case False
  with assms have y: "1 < 1 / x" by simp
  define c where "c = \<lceil>1 / x\<rceil>"
  from y have c2: "2 \<le> c" unfolding c_def by linarith
  then have m: "0 < c - 1" by simp
  define k where "k = bitlen (c - 1)"
  from m have k1: "1 \<le> k" by (simp add: k_def bitlen_alt_def)
  from bitlen_bounds [OF m] have "c - 1 < 2 ^ nat k" by (simp add: k_def)
  then have "c \<le> 2 ^ nat k" by simp
  then have "real_of_int c \<le> 2 ^ nat k"
    by (metis of_int_le_iff of_int_numeral of_int_power)
  moreover have "1 / x \<le> real_of_int c" by (simp add: c_def)
  ultimately have "1 / x \<le> 2 ^ nat k" by (rule order_trans [rotated])
  with assms have "1 / 2 ^ nat k \<le> x"
    by (simp add: field_simps)
  then show ?thesis using False assms k1 by (simp add: expo_def pow2_def c_def k_def)
qed

lemma fl_pos:
  assumes "0 < x"
  shows "0 < fl x"
proof -
  define q where "q = pow2 (expo x - 52)"
  have q: "0 < q" by (simp add: q_def pow2_pos)
  have "q \<le> pow2 (expo x)" unfolding q_def by (rule pow2_mono) simp
  also have "\<dots> \<le> x" using assms by (rule pow2_expo_le)
  finally have "1 \<le> x / q" using q by simp
  then have "1 \<le> \<lfloor>x / q\<rfloor>" by (simp add: le_floor_iff)
  with round_even_ge_floor [of "x / q"] have "1 \<le> round_even (x / q)" by linarith
  then have "0 < real_of_int (round_even (x / q))" by simp
  with q have "0 < q * real_of_int (round_even (x / q))" by simp
  with assms show ?thesis by (simp add: fl_def q_def)
qed

lemma fl_nonneg: "0 \<le> x \<Longrightarrow> 0 \<le> fl x"
  using fl_pos [of x] by (cases "x = 0") (auto simp: fl_def)

lemma fl_int:
  assumes "\<bar>n\<bar> < 2 ^ 53"
  shows "fl (real_of_int n) = real_of_int n"
proof (cases "n = 0")
  case True
  then show ?thesis by (simp add: fl_def)
next
  case False
  then have a: "0 < \<bar>n\<bar>" by simp
  then have one: "1 \<le> \<bar>real_of_int n\<bar>" by linarith
  have fl_abs: "\<lfloor>\<bar>real_of_int n\<bar>\<rfloor> = \<bar>n\<bar>"
    by (metis floor_of_int of_int_abs)
  define e where "e = bitlen \<bar>n\<bar> - 1"
  have ex: "expo (real_of_int n) = e"
    using one by (simp add: expo_def fl_abs e_def)
  from assms have "bitlen \<bar>n\<bar> \<le> 53" by (simp add: bitlen_le_iff_power)
  then have e52: "e \<le> 52" by (simp add: e_def)
  define k where "k = nat (52 - e)"
  have q: "pow2 (e - 52) = 1 / 2 ^ k"
    using e52 by (cases "e = 52") (auto simp: pow2_def k_def)
  have "real_of_int n / pow2 (e - 52) = real_of_int (n * 2 ^ k)"
    by (simp add: q)
  then have "round_even (real_of_int n / pow2 (e - 52)) = n * 2 ^ k"
    by (simp only: round_even_of_int)
  then have "fl (real_of_int n) = (1 / 2 ^ k) * real_of_int (n * 2 ^ k)"
    using False by (simp add: fl_def ex q)
  then show ?thesis by simp
qed

lemma wrap64_id: "- (2 ^ 63) \<le> i \<Longrightarrow> i < 2 ^ 63 \<Longrightarrow> wrap64 i = i"
  by (simp add: wrap64_def)

subsection \<open>Saliency labels from one ground-truth window\<close>

lemma py_int_nonneg: "0 \<le> x \<Longrightarrow> py_int x = \<lfloor>x\<rfloor>"
  by (simp add: py_int_def)

lemma gt_ed_floor: "max 0 (min (py_int x) c - 1) = max 0 (min \<lfloor>x\<rfloor> c - 1)"
proof (cases "0 \<le> x")
  case True then show ?thesis by (simp add: py_int_def)
next
  case False
  then have "\<lceil>x\<rceil> \<le> 0" "\<lfloor>x\<rfloor> \<le> 0" by (simp_all add: ceiling_le_iff floor_le_iff) 
  then have "min \<lceil>x\<rceil> c - 1 \<le> 0" "min \<lfloor>x\<rfloor> c - 1 \<le> 0" by linarith+
  then show ?thesis using False by (simp add: py_int_def max_def)
qed

lemma slice_fill_zeros:
  assumes "0 \<le> a" "a \<le> b" "b < int n"
  shows "slice_fill (replicate n (0::real)) a (b + 1) 1 =
     map (\<lambda>i. if a \<le> int i \<and> int i \<le> b then 1 else 0) [0..<n]"
  using assms by (auto simp: slice_fill_def slice_bound_def)

lemma length_py_range: "length (py_range lo hi) = nat (hi - lo)"
  by (simp add: py_range_def)

lemma set_py_range: "set (py_range lo hi) = {lo..hi - 1}"
  by (simp add: py_range_def)

text \<open>
  Claim C5, amended. For a window \<open>[st, ed]\<close> with \<open>st \<ge> 0\<close>, a duration of at least
  \<open>2^-64\<close> and \<open>0 < ctx_l \<le> 2^53\<close>, the three numbers double-precision values (zero or
  normal) of magnitude at most \<open>2^64\<close>, \<^verbatim>\<open>get_saliency_labels_sub_as_query\<close> returns, and its score
  array has length \<open>ctx_l\<close>, is 1 exactly at the clip indices \<open>gt_st..gt_ed\<close> and 0
  elsewhere, where \<open>clip_len = duration / ctx_l\<close>,
  \<open>gt_ed = max(0, min(floor(ed / clip_len), ctx_l) - 1)\<close> and
  \<open>gt_st = min(floor(st / clip_len), gt_ed)\<close> with the three quotients rounded to double
  precision, as Python computes them; every positive clip index lies in
  \<open>[gt_st, gt_ed]\<close>. (Within these bounds no quotient overflows, and \<open>clip_len\<close> does not
  underflow.)
\<close>

theorem sub_as_query_amended:
  fixes duration :: real and dset_name :: string
  assumes c: "0 < ctx_l" and c_max: "ctx_l \<le> 2 ^ 53"
    and d: "1 / 2 ^ 64 \<le> duration" and d_fl: "float64_value duration"
    and st: "0 \<le> fst gt_window" and st_fl: "float64_value (fst gt_window)"
    and ed_fl: "float64_value (snd gt_window)"
  shows "\<exists>res g'. get_saliency_labels_sub_as_query dset_name gt_window duration ctx_l 2 g
             = Inr (res, g') \<and> sub_as_query_rounded gt_window duration ctx_l res"
proof -
  define clip_len where "clip_len = fl (duration / real_of_int ctx_l)"
  define gt_ed where "gt_ed = max 0 (min \<lfloor>fl (snd gt_window / clip_len)\<rfloor> ctx_l - 1)"
  define gt_st where "gt_st = min \<lfloor>fl (fst gt_window / clip_len)\<rfloor> gt_ed"
  from d have dpos: "0 < duration" by (rule less_le_trans [rotated]) simp
  with c have "0 < duration / real_of_int ctx_l" by simp
  then have cl: "0 < clip_len" unfolding clip_len_def by (rule fl_pos)
  with st have "0 \<le> fst gt_window / clip_len" by simp
  then have q: "0 \<le> fl (fst gt_window / clip_len)" by (rule fl_nonneg)
  have ed_code: "max 0 (min (py_int (fl (snd gt_window / clip_len))) ctx_l - 1) = gt_ed"
    by (simp add: gt_ed_def gt_ed_floor)
  have st0: "py_int (fl (fst gt_window / clip_len)) = \<lfloor>fl (fst gt_window / clip_len)\<rfloor>"
    using q by (rule py_int_nonneg)
  have st_code: "(if py_int (fl (fst gt_window / clip_len)) > gt_ed then gt_ed
                  else py_int (fl (fst gt_window / clip_len))) = gt_st"
    by (simp add: st0 gt_st_def min_def)
  have ed0: "0 \<le> gt_ed" and edc: "gt_ed < ctx_l" using c by (auto simp: gt_ed_def)
  from q have "0 \<le> \<lfloor>fl (fst gt_window / clip_len)\<rfloor>" by simp
  with ed0 have st1: "0 \<le> gt_st" and st2: "gt_st \<le> gt_ed" by (auto simp: gt_st_def)
  obtain pos g1 where pos:
    "(if gt_st \<noteq> gt_ed then random_sample (py_range gt_st (gt_ed + 1)) 2 g
      else if dset_name = ''nlq'' then Inr (replicate 2 gt_st, g)
      else Inr ([gt_st, gt_st], g)) = Inr (pos, g1)"
    and pos_in: "set pos \<subseteq> {gt_st..gt_ed}"
  proof (cases "gt_st = gt_ed")
    case True
    then show ?thesis using that [of "[gt_st, gt_st]" g]
      by (auto simp: numeral_2_eq_2)
  next
    case False
    with st2 have "2 \<le> int (length (py_range gt_st (gt_ed + 1)))"
      by (simp add: length_py_range)
    then obtain r where r: "random_sample (py_range gt_st (gt_ed + 1)) 2 g = Inr r"
      by (auto simp: random_sample_def)
    obtain xs g1 where r2: "r = (xs, g1)" by (cases r)
    from random_sample_subset [of "py_range gt_st (gt_ed + 1)" 2 g xs g1] r r2
    have "set xs \<subseteq> {gt_st..gt_ed}" by (simp add: set_py_range)
    then show ?thesis using that [of xs g1] False r r2 by simp
  qed
  obtain neg g2 where neg:
    "(case random_sample (py_range 0 gt_st @ py_range (gt_ed + 1) ctx_l) 2 g1 of
        Inl e \<Rightarrow> (pos, g1) | Inr r \<Rightarrow> r) = (neg, g2)"
    by (cases "case random_sample (py_range 0 gt_st @ py_range (gt_ed + 1) ctx_l) 2 g1 of
        Inl e \<Rightarrow> (pos, g1) | Inr r \<Rightarrow> r")
  have arr: "slice_fill (replicate (nat ctx_l) (0::real)) gt_st (gt_ed + 1) 1 =
     map (\<lambda>i. if gt_st \<le> int i \<and> int i \<le> gt_ed then 1 else 0) [0..<nat ctx_l]"
    using st1 st2 edc by (intro slice_fill_zeros) auto
  have run: "get_saliency_labels_sub_as_query dset_name gt_window duration ctx_l 2 g =
      Inr ((pos, neg, slice_fill (replicate (nat ctx_l) 0) gt_st (gt_ed + 1) 1), g2)"
    unfolding get_saliency_labels_sub_as_query_def Let_def clip_len_def [symmetric]
      ed_code st_code
    using c cl pos neg by (simp add: np_zeros_def)
  have "sub_as_query_rounded gt_window duration ctx_l
          (pos, neg, slice_fill (replicate (nat ctx_l) 0) gt_st (gt_ed + 1) 1)"
    unfolding sub_as_query_rounded_def Let_def clip_len_def [symmetric] gt_ed_def [symmetric]
      gt_st_def [symmetric]
    using arr pos_in by (auto simp: list_all_iff)
  with run show ?thesis by blast
qed

text \<open>The whole of a 9 second video of 7 clips: \<open>9 / 7\<close> rounds up to
  \<open>1.2857142857142858\<close>, \<open>9 / clip_len\<close> is \<open>6.999999999999999\<close>, so \<open>gt_ed = 5\<close> and the
  last clip stays 0.\<close>

lemma sub_as_query_whole_video:
  "get_saliency_labels_sub_as_query ''charades'' (0, 9) 9 7 2 [] =
     Inr (([0, 1], [0, 1], [1, 1, 1, 1, 1, 1, 0]), [])"
  by code_simp

lemma float64_value_small: "float64_value 0" "float64_value 9"
  by code_simp+

text \<open>The theorem at that window.\<close>

theorem sub_as_query_amended_witness:
  "float64_value 0 \<and> float64_value 9
   \<and> (\<exists>res g'. get_saliency_labels_sub_as_query ''charades'' (0, 9) 9 7 2 []
           = Inr (res, g') \<and> sub_as_query_rounded (0, 9) 9 7 res
         \<and> snd (snd res) = [1, 1, 1, 1, 1, 1, 0])"
proof -
  have h: "(0::int) < 7" "(7::int) \<le> 2 ^ 53" "1 / 2 ^ 64 \<le> (9::real)" "float64_value 9"
    "0 \<le> fst (0::real, 9::real)" "float64_value (fst (0::real, 9::real))"
    "float64_value (snd (0::real, 9::real))"
    by (simp_all add: float64_value_small)
  from sub_as_query_amended [OF h, of "''charades''" "[]"] sub_as_query_whole_video
  have "sub_as_query_rounded (0, 9) 9 7 ([0, 1], [0, 1], [1, 1, 1, 1, 1, 1, 0])"
    by auto
  with sub_as_query_whole_video float64_value_small show ?thesis by simp
qed

text \<open>
  Claim C5 as stated, with exact quotients, fails at that window: \<open>9 / (9 / 7)\<close> is
  exactly 7, so the stated \<open>gt_ed\<close> is 6 and the stated array is 1 at all seven clips,
  while the source leaves the last clip at 0.
\<close>

theorem sub_as_query_counterexample:
  "\<not> (\<forall>gt_window duration ctx_l g. 0 < duration \<longrightarrow> 0 < ctx_l \<longrightarrow>
      (\<exists>res g'. get_saliency_labels_sub_as_query ''charades'' gt_window duration ctx_l 2 g
             = Inr (res, g') \<and> sub_as_query_spec gt_window duration ctx_l res))"
proof
  assume "\<forall>gt_window duration ctx_l g. 0 < duration \<longrightarrow> 0 < ctx_l \<longrightarrow>
      (\<exists>res g'. get_saliency_labels_sub_as_query ''charades'' gt_window duration ctx_l 2 g
             = Inr (res, g') \<and> sub_as_query_spec gt_window duration ctx_l res)"
  then have "\<exists>res g'. get_saliency_labels_sub_as_query ''charades'' (0, 9) 9 7 2 []
             = Inr (res, g') \<and> sub_as_query_spec (0, 9) 9 7 res"
    by (metis zero_less_numeral)
  then have "sub_as_query_spec (0, 9) 9 7 ([0, 1], [0, 1], [1, 1, 1, 1, 1, 1, 0])"
    by (auto simp: sub_as_query_whole_video)
  moreover have "\<not> sub_as_query_spec (0, 9) 9 7 ([0, 1], [0, 1], [1, 1, 1, 1, 1, 1, 0])"
    by code_simp
  ultimately show False by simp
qed

text \<open>A negative start is outside the amended claim: \<^verbatim>\<open>int()\<close> truncates toward zero and
  a negative \<open>gt_st\<close> makes \<^verbatim>\<open>score_array[gt_st:gt_ed + 1]\<close> a slice counted from the end.
  For \<open>[-3, 6]\<close>, \<open>duration = 10\<close>, \<open>ctx_l = 5\<close> the array stays all zero.\<close>

lemma sub_as_query_negative_start:
  "get_saliency_labels_sub_as_query ''charades'' (- 3, 6) 10 5 2 [] =
     Inr (([- 1, 0], [3, 4], [0, 0, 0, 0, 0]), [])"
  by code_simp

subsection \<open>Saliency labels from relevant clip ids\<close>

lemma map_raise_total:
  "(\<And>x. x \<in> set xs \<Longrightarrow> f x = Inr (h x)) \<Longrightarrow> map_raise f xs = Inr (map h xs)"
  by (induction xs) auto

lemma set_np_argsort: "set (np_argsort xs) = {0..<length xs}"
proof -
  have m: "map snd (zip xs [0..<length xs]) = [0..<length xs]"
    by (rule map_snd_zip) simp
  have "set (np_argsort xs) = snd ` set (zip xs [0..<length xs])"
    by (simp add: np_argsort_def)
  also have "\<dots> = set (map snd (zip xs [0..<length xs]))"
    by (simp only: set_map)
  finally show ?thesis by (simp only: m set_upt)
qed

lemma length_np_argsort: "length (np_argsort xs) = length xs"
  by (simp add: np_argsort_def)

lemma py_get_in_range: "i < length xs \<Longrightarrow> py_get xs (int i) = Inr (xs ! i)"
  by (simp add: py_get_def)

lemma py_set_in_range: "0 \<le> c \<Longrightarrow> c < int (length xs) \<Longrightarrow> py_set xs c v = Inr (xs[nat c := v])"
  by (simp add: py_set_def)

lemma score_loop_in_range:
  assumes "\<forall>c\<in>set cs. 0 \<le> c \<and> c < ctx_l" and "int (length arr) = ctx_l"
    and "idx + length cs \<le> length agg"
  shows "\<exists>arr'. score_loop ctx_l cs agg idx arr = Inr arr' \<and> length arr' = length arr
     \<and> (\<forall>k<length arr. int k \<notin> set cs \<longrightarrow> arr' ! k = arr ! k)
     \<and> (\<forall>i<length cs. (\<forall>j. i < j \<and> j < length cs \<longrightarrow> cs ! j \<noteq> cs ! i)
            \<longrightarrow> arr' ! nat (cs ! i) = fl (real_of_int (agg ! (idx + i))))"
  using assms
proof (induction cs arbitrary: idx arr)
  case Nil
  then show ?case by simp
next
  case (Cons c cs)
  from Cons.prems have c0: "0 \<le> c" and c1: "c < int (length arr)" and nogrow: "\<not> ctx_l \<le> c"
    by auto
  from Cons.prems have idx: "idx < length agg" by simp
  define arr2 where "arr2 = arr[nat c := fl (real_of_int (agg ! idx))]"
  have len2: "int (length arr2) = ctx_l" using Cons.prems by (simp add: arr2_def)
  have step: "score_loop ctx_l (c # cs) agg idx arr = score_loop ctx_l cs agg (Suc idx) arr2"
    using nogrow by (simp add: py_get_in_range [OF idx] py_set_in_range [OF c0 c1] arr2_def)
  from Cons.prems have rest: "\<forall>c\<in>set cs. 0 \<le> c \<and> c < ctx_l" "Suc idx + length cs \<le> length agg"
    by auto
  from Cons.IH [OF rest(1) len2 rest(2)] obtain arr' where
    run: "score_loop ctx_l cs agg (Suc idx) arr2 = Inr arr'" and
    len: "length arr' = length arr2" and
    keep: "\<forall>k<length arr2. int k \<notin> set cs \<longrightarrow> arr' ! k = arr2 ! k" and
    last: "\<forall>i<length cs. (\<forall>j. i < j \<and> j < length cs \<longrightarrow> cs ! j \<noteq> cs ! i)
            \<longrightarrow> arr' ! nat (cs ! i) = fl (real_of_int (agg ! (Suc idx + i)))"
    by blast
  have l2: "length arr2 = length arr" by (simp add: arr2_def)
  have p1: "\<forall>k<length arr. int k \<notin> set (c # cs) \<longrightarrow> arr' ! k = arr ! k"
  proof (intro allI impI)
    fix k assume k: "k < length arr" and nk: "int k \<notin> set (c # cs)"
    then have "k \<noteq> nat c" using c0 by auto
    with keep k nk l2 show "arr' ! k = arr ! k" by (simp add: arr2_def)
  qed
  have p2: "\<forall>i<length (c # cs). (\<forall>j. i < j \<and> j < length (c # cs) \<longrightarrow> (c # cs) ! j \<noteq> (c # cs) ! i)
            \<longrightarrow> arr' ! nat ((c # cs) ! i) = fl (real_of_int (agg ! (idx + i)))"
  proof (intro allI impI)
    fix i assume i: "i < length (c # cs)"
      and later: "\<forall>j. i < j \<and> j < length (c # cs) \<longrightarrow> (c # cs) ! j \<noteq> (c # cs) ! i"
    show "arr' ! nat ((c # cs) ! i) = fl (real_of_int (agg ! (idx + i)))"
    proof (cases i)
      case 0
      have "c \<notin> set cs"
      proof
        assume "c \<in> set cs"
        then obtain j where "j < length cs" "cs ! j = c" by (auto simp: in_set_conv_nth)
        with later 0 show False by (auto dest: spec [of _ "Suc j"])
      qed
      moreover have "nat c < length arr2" using c0 c1 l2 by simp
      ultimately have "arr' ! nat c = arr2 ! nat c" using keep c0 by simp
      also have "\<dots> = fl (real_of_int (agg ! idx))" using c0 c1 by (simp add: arr2_def)
      finally show ?thesis using 0 by simp
    next
      case (Suc i')
      with i have i': "i' < length cs" by simp
      have "\<forall>j. i' < j \<and> j < length cs \<longrightarrow> cs ! j \<noteq> cs ! i'"
      proof (intro allI impI)
        fix j assume "i' < j \<and> j < length cs"
        with later Suc show "cs ! j \<noteq> cs ! i'" by (auto dest: spec [of _ "Suc j"])
      qed
      with last i' have "arr' ! nat (cs ! i') = fl (real_of_int (agg ! (Suc idx + i')))" by blast
      then show ?thesis using Suc by simp
    qed
  qed
  from step run len l2 p1 p2 show ?case by simp
qed


lemma hard_clip_indices_total:
  assumes "set idxs \<subseteq> {0..<length rel_clip_ids}"
  shows "hard_clip_indices rel_clip_ids ctx_l idxs =
           Inr (map (\<lambda>idx. min (rel_clip_ids ! idx) (ctx_l - 1)) idxs)"
  unfolding hard_clip_indices_def
proof (rule map_raise_total)
  fix x assume "x \<in> set idxs"
  with assms have "x < length rel_clip_ids" by auto
  then show "(case py_get rel_clip_ids (int x) of Inl e \<Rightarrow> Inl e
               | Inr c \<Rightarrow> Inr (min c (ctx_l - 1))) = Inr (min (rel_clip_ids ! x) (ctx_l - 1))"
    by (simp add: py_get_in_range)
qed

lemma slice_from_last_nonempty: "xs \<noteq> [] \<Longrightarrow> slice_from (- 1) xs \<noteq> []"
  by (cases xs) (auto simp: slice_from_def slice_bound_def)

lemma slice_to_first_nonempty: "xs \<noteq> [] \<Longrightarrow> slice_to 1 xs \<noteq> []"
  by (cases xs) (auto simp: slice_to_def slice_bound_def)

lemma set_slice_from: "set (slice_from i xs) \<subseteq> set xs"
  by (auto simp: slice_from_def dest: in_set_dropD)

lemma set_slice_to: "set (slice_to i xs) \<subseteq> set xs"
  by (auto simp: slice_to_def dest: in_set_takeD)

lemma random_sample_one: "pool \<noteq> [] \<Longrightarrow> \<exists>x g'. random_sample pool 1 g = Inr ([x], g')"
  by (cases pool; cases "randbelow (length pool) g") (auto simp: random_sample_def)

text \<open>
  Claim C2, amended. For a non-empty list of clip ids, each non-negative and below
  \<open>ctx_l\<close>, with one list of integer scores per clip id, all of one length, every score
  within int64 and every clip's sum below \<open>2^53\<close> in absolute value,
  \<^verbatim>\<open>get_saliency_labels_all(rel_clip_ids, scores, ctx_l)\<close> returns; the score array has length
  \<open>ctx_l\<close>; its entry at \<open>rel_clip_ids[i]\<close> is the sum of the scores of clip \<open>i\<close> whenever
  no later position of the list holds the same id (so for every \<open>i\<close> when the ids are
  distinct); its entry at every clip not in the list is 0; and the positive and the
  negative index lists are not empty.
\<close>

theorem saliency_all_amended:
  assumes ne: "rel_clip_ids \<noteq> []"
    and ids: "\<forall>c\<in>set rel_clip_ids. 0 \<le> c \<and> c < ctx_l"
    and len: "length scores = length rel_clip_ids"
    and rect: "rectangular scores"
    and fits: "\<forall>row\<in>set scores. \<forall>x\<in>set row. - (2 ^ 63) \<le> x \<and> x < 2 ^ 63"
    and small: "\<forall>row\<in>set scores. \<bar>sum_list row\<bar> < 2 ^ 53"
  shows "\<exists>pos neg score_array g'.
      get_saliency_labels_all rel_clip_ids scores ctx_l 1 True g
        = Inr ((pos, neg, score_array), g')
    \<and> int (length score_array) = ctx_l
    \<and> (\<forall>i<length rel_clip_ids.
          (\<forall>j. i < j \<and> j < length rel_clip_ids \<longrightarrow> rel_clip_ids ! j \<noteq> rel_clip_ids ! i)
          \<longrightarrow> score_array ! nat (rel_clip_ids ! i) = real_of_int (sum_list (scores ! i)))
    \<and> (\<forall>k<nat ctx_l. int k \<notin> set rel_clip_ids \<longrightarrow> score_array ! k = 0)
    \<and> pos \<noteq> [] \<and> neg \<noteq> []"
proof -
  define agg where "agg = map (\<lambda>row. wrap64 (sum_list row)) scores"
  define n where "n = nat ctx_l"
  from ne len have sne: "scores \<noteq> []" by auto
  with rect have agg: "np_sum_axis1 scores = Inr agg"
    by (simp add: np_sum_axis1_def agg_def)
  from ne ids have pos_ctx: "0 < ctx_l" by (cases rel_clip_ids) auto
  then have zeros: "np_zeros ctx_l = Inr (replicate n 0)" by (simp add: np_zeros_def n_def)
  have lz: "int (length (replicate n (0::real))) = ctx_l" using pos_ctx by (simp add: n_def)
  have la: "0 + length rel_clip_ids \<le> length agg" using len by (simp add: agg_def)
  from score_loop_in_range [OF ids lz la] obtain arr where
    loop: "score_loop ctx_l rel_clip_ids agg 0 (replicate n 0) = Inr arr" and
    larr: "length arr = n" and
    keep: "\<forall>k<n. int k \<notin> set rel_clip_ids \<longrightarrow> arr ! k = replicate n (0::real) ! k" and
    last: "\<forall>i<length rel_clip_ids.
          (\<forall>j. i < j \<and> j < length rel_clip_ids \<longrightarrow> rel_clip_ids ! j \<noteq> rel_clip_ids ! i)
          \<longrightarrow> arr ! nat (rel_clip_ids ! i) = fl (real_of_int (agg ! (0 + i)))"
    by auto
  define si where "si = np_argsort agg"
  have si_set: "set si = {0..<length rel_clip_ids}"
    using len by (simp add: si_def set_np_argsort agg_def)
  have si_ne: "si \<noteq> []" using ne si_set by auto
  define hp where "hp = map (\<lambda>idx. min (rel_clip_ids ! idx) (ctx_l - 1)) (slice_from (- 1) si)"
  define hn where "hn = map (\<lambda>idx. min (rel_clip_ids ! idx) (ctx_l - 1)) (slice_to 1 si)"
  have hp: "hard_clip_indices rel_clip_ids ctx_l (slice_from (- 1) si) = Inr hp"
    unfolding hp_def using set_slice_from [of "- 1" si] si_set
    by (intro hard_clip_indices_total) auto
  have hn: "hard_clip_indices rel_clip_ids ctx_l (slice_to 1 si) = Inr hn"
    unfolding hn_def using set_slice_to [of 1 si] si_set
    by (intro hard_clip_indices_total) auto
  have hp_ne: "hp \<noteq> []" using slice_from_last_nonempty [OF si_ne] by (simp add: hp_def)
  have hn_ne: "hn \<noteq> []" using slice_to_first_nonempty [OF si_ne] by (simp add: hn_def)
  define pool where "pool = filter (\<lambda>i. i \<notin> set rel_clip_ids) (py_range 0 ctx_l)"
  have easy: "\<exists>ep en g'.
      (if int (length pool) \<ge> 1 then
         case random_sample rel_clip_ids 1 g of
           Inl e \<Rightarrow> Inl e
         | Inr (easy_pos, g1) \<Rightarrow>
             (case random_sample pool 1 g1 of
                Inl e \<Rightarrow> Inl e
              | Inr (easy_neg, g2) \<Rightarrow> Inr (easy_pos, easy_neg, g2))
       else Inr (hp, hn, g)) = Inr (ep, en, g')"
  proof (cases "int (length pool) \<ge> 1")
    case True
    then have "pool \<noteq> []" by auto
    from random_sample_one [OF ne, of g] obtain x g1 where
      a: "random_sample rel_clip_ids 1 g = Inr ([x], g1)" by blast
    from random_sample_one [OF \<open>pool \<noteq> []\<close>, of g1] obtain y g2 where
      b: "random_sample pool 1 g1 = Inr ([y], g2)" by blast
    from True a b show ?thesis by simp
  next
    case False
    then show ?thesis by simp
  qed
  then obtain ep en g' where easy':
     "(if int (length pool) \<ge> 1 then
         case random_sample rel_clip_ids 1 g of
           Inl e \<Rightarrow> Inl e
         | Inr (easy_pos, g1) \<Rightarrow>
             (case random_sample pool 1 g1 of
                Inl e \<Rightarrow> Inl e
              | Inr (easy_neg, g2) \<Rightarrow> Inr (easy_pos, easy_neg, g2))
       else Inr (hp, hn, g)) = Inr (ep, en, g')" by blast
  have run: "get_saliency_labels_all rel_clip_ids scores ctx_l 1 True g
        = Inr ((hp @ ep, hn @ en, arr), g')"
    unfolding get_saliency_labels_all_def Let_def
    by (simp only: agg zeros loop si_def [symmetric] hp hn pool_def [symmetric] easy'
          sum.case prod.case if_True)
  have c1: "int (length arr) = ctx_l" using larr pos_ctx by (simp add: n_def)
  have exact: "fl (real_of_int (agg ! i)) = real_of_int (sum_list (scores ! i))"
    if i: "i < length rel_clip_ids" for i
  proof -
    from i len have "scores ! i \<in> set scores" by simp
    with small have s: "\<bar>sum_list (scores ! i)\<bar> < 2 ^ 53" by blast
    have "(2::int) ^ 53 \<le> 2 ^ 63" by simp
    with s have "- (2 ^ 63) \<le> sum_list (scores ! i)" "sum_list (scores ! i) < 2 ^ 63"
      by linarith+
    then have "wrap64 (sum_list (scores ! i)) = sum_list (scores ! i)"
      by (rule wrap64_id)
    with i len have "agg ! i = sum_list (scores ! i)" by (simp add: agg_def)
    with s show ?thesis by (simp add: fl_int)
  qed
  have c2: "\<forall>i<length rel_clip_ids.
          (\<forall>j. i < j \<and> j < length rel_clip_ids \<longrightarrow> rel_clip_ids ! j \<noteq> rel_clip_ids ! i)
          \<longrightarrow> arr ! nat (rel_clip_ids ! i) = real_of_int (sum_list (scores ! i))"
    using last exact by simp
  have c3: "\<forall>k<nat ctx_l. int k \<notin> set rel_clip_ids \<longrightarrow> arr ! k = 0"
    using keep by (simp add: n_def)
  from run c1 c2 c3 hp_ne hn_ne show ?thesis by simp
qed


text \<open>The theorem at the clips 1 and 3 of a video of 5 clips.\<close>

theorem saliency_all_amended_witness:
  "[1, 3] \<noteq> ([] :: int list) \<and> rectangular [[1, 1, 1], [1, 2, 3 :: int]] \<and>
   (\<exists>pos neg score_array g'.
      get_saliency_labels_all [1, 3] [[1, 1, 1], [1, 2, 3]] 5 1 True [5, 6]
        = Inr ((pos, neg, score_array), g')
    \<and> int (length score_array) = 5
    \<and> score_array ! 1 = 3 \<and> score_array ! 3 = 6
    \<and> score_array ! 0 = 0 \<and> score_array ! 2 = 0 \<and> score_array ! 4 = 0
    \<and> pos \<noteq> [] \<and> neg \<noteq> [])"
proof -
  have h: "[1, 3] \<noteq> ([] :: int list)" "\<forall>c\<in>set [1, 3 :: int]. 0 \<le> c \<and> c < 5"
    "length [[1, 1, 1], [1, 2, 3 :: int]] = length [1, 3 :: int]"
    "rectangular [[1, 1, 1], [1, 2, 3 :: int]]"
    "\<forall>row\<in>set [[1, 1, 1], [1, 2, 3 :: int]]. \<forall>x\<in>set row. - (2 ^ 63) \<le> x \<and> x < 2 ^ 63"
    "\<forall>row\<in>set [[1, 1, 1], [1, 2, 3 :: int]]. \<bar>sum_list row\<bar> < 2 ^ 53"
    by (simp_all add: rectangular_def)
  from saliency_all_amended [OF h, of "[5, 6]"] obtain pos neg score_array g' where
    r: "get_saliency_labels_all [1, 3] [[1, 1, 1], [1, 2, 3]] 5 1 True [5, 6]
        = Inr ((pos, neg, score_array), g')"
    and l: "int (length score_array) = 5"
    and a: "\<forall>i<length [1, 3 :: int].
          (\<forall>j. i < j \<and> j < length [1, 3 :: int] \<longrightarrow> [1, 3 :: int] ! j \<noteq> [1, 3] ! i)
          \<longrightarrow> score_array ! nat ([1, 3] ! i)
              = real_of_int (sum_list ([[1, 1, 1], [1, 2, 3]] ! i))"
    and z: "\<forall>k<nat 5. int k \<notin> set [1, 3] \<longrightarrow> score_array ! k = 0"
    and p: "pos \<noteq> []" "neg \<noteq> []"
    by blast
  have j0: "\<forall>j. 0 < j \<and> j < length [1, 3 :: int] \<longrightarrow> [1, 3 :: int] ! j \<noteq> [1, 3] ! 0"
    by (auto simp: less_Suc_eq)
  have j1: "\<forall>j. 1 < j \<and> j < length [1, 3 :: int] \<longrightarrow> [1, 3 :: int] ! j \<noteq> [1, 3] ! 1"
    by auto
  from a j0 have "score_array ! nat ([1, 3] ! 0)
      = real_of_int (sum_list ([[1, 1, 1], [1, 2, 3]] ! 0))"
    by (metis length_Cons zero_less_Suc)
  then have a0: "score_array ! 1 = 3" by simp
  from a j1 have "score_array ! nat ([1, 3] ! 1)
      = real_of_int (sum_list ([[1, 1, 1], [1, 2, 3]] ! 1))"
    by (metis One_nat_def length_Cons lessI list.size(3))
  then have a1: "score_array ! 3 = 6" by simp
  from z [rule_format, of 0] z [rule_format, of 2] z [rule_format, of 4]
  have "score_array ! 0 = 0" "score_array ! 2 = 0" "score_array ! 4 = 0" by simp_all
  with h r l a0 a1 p show ?thesis by blast
qed

text \<open>A clip id listed twice keeps the scores of its last occurrence.\<close>

lemma saliency_all_duplicate_ids:
  "get_saliency_labels_all [0, 0] [[1], [2]] 1 1 True [] = Inr (([0, 0], [0, 0], [2]), [])"
  by code_simp

text \<open>Three scores of \<open>2^62\<close> add up to \<open>-2^62\<close> in int64.\<close>

lemma saliency_all_wraps:
  "get_saliency_labels_all [0] [[2 ^ 62, 2 ^ 62, 2 ^ 62]] 2 1 True [] =
     Inr (([0, 0], [0, 1], [- (2 ^ 62), 0]), [])"
  by code_simp

text \<open>
  Claim C2 as stated fails in three ways. With the clip id 0 listed twice and the
  scores \<open>[[1], [2]]\<close> the loop writes 1 and then 2 to the same cell, so the entry at
  \<open>rel_clip_ids[0]\<close> is 2 and not the sum 1 of the scores of clip 0. With no relevant
  clip at all, \<^verbatim>\<open>np.sum(np.array([]), 1)\<close> raises and no list is returned. And the sum is
  taken in int64: for the scores \<open>[[2^62, 2^62, 2^62]]\<close> the entry is \<open>-2^62\<close>.
\<close>

theorem saliency_all_counterexample:
  "\<not> (\<forall>rel_clip_ids scores ctx_l g.
        (\<forall>c\<in>set rel_clip_ids. 0 \<le> c \<and> c < ctx_l) \<longrightarrow>
        length scores = length rel_clip_ids \<longrightarrow>
        (\<exists>pos neg score_array g'.
           get_saliency_labels_all rel_clip_ids scores ctx_l 1 True g
             = Inr ((pos, neg, score_array), g')
         \<and> int (length score_array) = ctx_l
         \<and> (\<forall>i<length rel_clip_ids.
               score_array ! nat (rel_clip_ids ! i) = real_of_int (sum_list (scores ! i)))
         \<and> (\<forall>k<nat ctx_l. int k \<notin> set rel_clip_ids \<longrightarrow> score_array ! k = 0)
         \<and> pos \<noteq> [] \<and> neg \<noteq> []))
   \<and> get_saliency_labels_all [] [] 1 1 True [] = Inl AxisError
   \<and> get_saliency_labels_all [0] [[2 ^ 62, 2 ^ 62, 2 ^ 62]] 2 1 True [] =
       Inr (([0, 0], [0, 1], [- (2 ^ 62), 0]), [])"
proof (intro conjI)
  show "\<not> (\<forall>rel_clip_ids scores ctx_l g.
        (\<forall>c\<in>set rel_clip_ids. 0 \<le> c \<and> c < ctx_l) \<longrightarrow>
        length scores = length rel_clip_ids \<longrightarrow>
        (\<exists>pos neg score_array g'.
           get_saliency_labels_all rel_clip_ids scores ctx_l 1 True g
             = Inr ((pos, neg, score_array), g')
         \<and> int (length score_array) = ctx_l
         \<and> (\<forall>i<length rel_clip_ids.
               score_array ! nat (rel_clip_ids ! i) = real_of_int (sum_list (scores ! i)))
         \<and> (\<forall>k<nat ctx_l. int k \<notin> set rel_clip_ids \<longrightarrow> score_array ! k = 0)
         \<and> pos \<noteq> [] \<and> neg \<noteq> []))"
  proof
    assume "\<forall>rel_clip_ids scores ctx_l g.
        (\<forall>c\<in>set rel_clip_ids. 0 \<le> c \<and> c < ctx_l) \<longrightarrow>
        length scores = length rel_clip_ids \<longrightarrow>
        (\<exists>pos neg score_array g'.
           get_saliency_labels_all rel_clip_ids scores ctx_l 1 True g
             = Inr ((pos, neg, score_array), g')
         \<and> int (length score_array) = ctx_l
         \<and> (\<forall>i<length rel_clip_ids.
               score_array ! nat (rel_clip_ids ! i) = real_of_int (sum_list (scores ! i)))
         \<and> (\<forall>k<nat ctx_l. int k \<notin> set rel_clip_ids \<longrightarrow> score_array ! k = 0)
         \<and> pos \<noteq> [] \<and> neg \<noteq> [])"
    from this [rule_format, of "[0, 0]" 1 "[[1], [2]]" "[]"]
    obtain pos neg score_array g' where
      r: "get_saliency_labels_all [0, 0] [[1], [2]] 1 1 True []
             = Inr ((pos, neg, score_array), g')"
      and a: "\<forall>i<length [0, 0 :: int].
               score_array ! nat ([0, 0] ! i) = real_of_int (sum_list ([[1], [2]] ! i))"
      by auto
    from r have "score_array = [2]" by (simp add: saliency_all_duplicate_ids)
    with a [rule_format, of 0] show False by simp
  qed
  show "get_saliency_labels_all [] [] 1 1 True [] = Inl AxisError"
    by code_simp
  show "get_saliency_labels_all [0] [[2 ^ 62, 2 ^ 62, 2 ^ 62]] 2 1 True [] =
       Inr (([0, 0], [0, 1], [- (2 ^ 62), 0]), [])"
    by (rule saliency_all_wraps)
qed

text \<open>
  Claim C9 (the loop never indexes out of bounds, also for ids at or above \<open>ctx_l\<close>)
  does not hold of the source: the array is regrown to exactly \<open>ctx_l + 1\<close> cells
  whatever the id is. For \<open>ctx_l = 2\<close> and the single id 3 the store
  \<^verbatim>\<open>score_array[3] = ...\<close> hits an array of 3 cells (IndexError); for the ids
  \<open>[2, 2]\<close> the second regrowth copies 3 cells into a slice of 2 (ValueError).
\<close>

theorem score_loop_out_of_bounds:
  "score_loop 2 [3] [3] 0 [0, 0] = Inl IndexError
   \<and> get_saliency_labels_all [3] [[1, 1, 1]] 2 1 True [] = Inl IndexError
   \<and> get_saliency_labels_all [2, 2] [[1, 1, 1], [1, 2, 3]] 2 1 True [] = Inl ValueError"
  by code_simp

subsection \<open>Span labels\<close>



subsection \<open>Construction\<close>


subsection \<open>The stored records under \<^verbatim>\<open>__getitem__\<close>\<close>

lemma shuffle_from_mset:
  "i < length xs \<Longrightarrow> mset (fst (shuffle_from i xs g)) = mset xs"
proof (induction i arbitrary: xs g)
  case 0
  then show ?case by simp
next
  case (Suc i)
  obtain j g1 where r: "randbelow (Suc (Suc i)) g = (j, g1)"
    by (cases "randbelow (Suc (Suc i)) g")
  from randbelow_less [of "Suc (Suc i)" g] r have "j < Suc (Suc i)" by simp
  with Suc.prems have j: "j < length xs" by simp
  define ys where "ys = xs[Suc i := xs ! j, j := xs ! Suc i]"
  have "mset ys = mset xs" unfolding ys_def using j Suc.prems by (rule mset_swap)
  moreover have "i < length ys" using Suc.prems by (simp add: ys_def)
  ultimately have "mset (fst (shuffle_from i ys g1)) = mset xs" using Suc.IH [of ys g1] by simp
  then show ?case using r by (simp add: ys_def)
qed

lemma random_shuffle_mset: "mset (fst (random_shuffle xs g)) = mset xs"
proof (cases xs)
  case Nil
  then show ?thesis by (simp add: random_shuffle_def)
next
  case (Cons x xs')
  then have "length xs - 1 < length xs" by simp
  then show ?thesis unfolding random_shuffle_def by (rule shuffle_from_mset)
qed

lemma get_span_labels_frame:
  assumes "get_span_labels self ws ctx_l g = (r, ws', g')"
  shows "(ws' = ws \<or> max_windows self < int (length ws)) \<and> mset ws' = mset ws"
proof (cases "max_windows self < int (length ws)")
  case True
  obtain sh g1 where s: "random_shuffle ws g = (sh, g1)" by (cases "random_shuffle ws g")
  with assms True have "ws' = sh" by (simp add: get_span_labels_def Let_def)
  moreover from random_shuffle_mset [of ws g] s have "mset sh = mset ws" by simp
  ultimately show ?thesis using True by simp
next
  case False
  with assms show ?thesis by (simp add: get_span_labels_def Let_def)
qed

lemma labels_moment_frame:
  assumes "labels_moment self meta mi ctx_l g = (r, meta', g')"
  shows "meta' = meta \<or> windows_reordered self meta meta'"
proof (cases "relevant_windows meta")
  case None
  with assms show ?thesis by (simp add: labels_moment_def)
next
  case (Some ws)
  obtain r1 ws' g1 where sp: "get_span_labels self ws ctx_l g = (r1, ws', g1)"
    by (cases "get_span_labels self ws ctx_l g")
  from assms Some sp have m: "meta' = meta\<lparr>relevant_windows := Some ws'\<rparr>"
    by (auto simp: labels_moment_def Let_def split: sum.splits prod.splits)
  from get_span_labels_frame [OF sp]
  have f: "ws' = ws \<or> max_windows self < int (length ws)" and ms: "mset ws' = mset ws"
    by auto
  show ?thesis
  proof (cases "ws' = ws")
    case True
    with m Some have "meta' = meta" by simp
    then show ?thesis ..
  next
    case False
    with f have "max_windows self < int (length ws)" by simp
    with m ms Some have "windows_reordered self meta meta'"
      by (simp add: windows_reordered_def)
    then show ?thesis ..
  qed
qed

lemma item_labels_frame:
  assumes "item_labels self meta mi ctx_l g = (r, meta', g')"
  shows "meta' = meta \<or> windows_reordered self meta meta'"
  using assms labels_moment_frame [of self meta mi ctx_l g r meta' g']
  by (auto simp: item_labels_def split: if_splits)

lemma py_get_Inr:
  "py_get xs i = Inr x \<Longrightarrow> py_index i (length xs) < length xs \<and> xs ! py_index i (length xs) = x"
  by (auto simp: py_get_def py_index_def Let_def split: if_splits)

text \<open>
  Claim C3, amended. Whatever \<^verbatim>\<open>__getitem__(index)\<close> returns or raises, the dataset
  object differs at most in \<^verbatim>\<open>self.data\<close>, which keeps its length; every stored record
  other than \<^verbatim>\<open>self.data[index]\<close> is unchanged; and \<^verbatim>\<open>self.data[index]\<close> is unchanged
  unless it has more than \<open>max_windows\<close> relevant windows, in which case its
  \<open>relevant_windows\<close> list may be reordered (the same windows, each as often as
  before) and all its other fields are unchanged.
\<close>

theorem getitem_frame:
  assumes run: "getitem self fs index g = (out, self', g')"
  shows "self' = self\<lparr>data := data self'\<rparr>
     \<and> length (data self') = length (data self)
     \<and> (\<forall>i<length (data self).
           data self' ! i = data self ! i
           \<or> (i = py_index index (length (data self))
              \<and> windows_reordered self (data self ! i) (data self' ! i)))"
proof (cases "py_get (data self) index")
  case (Inl e)
  with run have "self' = self" by (simp add: getitem_def)
  then show ?thesis by simp
next
  case (Inr meta)
  define k where "k = py_index index (length (data self))"
  from py_get_Inr [OF Inr] have k: "k < length (data self)" and mk: "data self ! k = meta"
    by (simp_all add: k_def)
  show ?thesis
  proof (cases "item_features self fs meta")
    case (Inl e)
    with run Inr have "self' = self" by (simp add: getitem_def)
    then show ?thesis by simp
  next
    case feat: (Inr p)
    obtain mi ctx_l where p: "p = (mi, ctx_l)" by (cases p)
    obtain r meta' g1 where lab:
      "(if load_labels self then item_labels self meta mi ctx_l g else (Inr mi, meta, g))
         = (r, meta', g1)"
      by (cases "if load_labels self then item_labels self meta mi ctx_l g else (Inr mi, meta, g)")
    have m: "meta' = meta \<or> windows_reordered self meta meta'"
    proof (cases "load_labels self")
      case True
      with lab have "item_labels self meta mi ctx_l g = (r, meta', g1)" by simp
      then show ?thesis by (rule item_labels_frame)
    next
      case False
      with lab show ?thesis by simp
    qed
    from run Inr feat p lab have s: "self' = self\<lparr>data := (data self)[k := meta']\<rparr>"
      by (auto simp: getitem_def Let_def k_def split: sum.splits)
    have "\<forall>i<length (data self).
           data self' ! i = data self ! i
           \<or> (i = k \<and> windows_reordered self (data self ! i) (data self' ! i))"
    proof (intro allI impI)
      fix i assume "i < length (data self)"
      show "data self' ! i = data self ! i
           \<or> (i = k \<and> windows_reordered self (data self ! i) (data self' ! i))"
      proof (cases "i = k")
        case True
        with s k mk m show ?thesis by auto
      next
        case False
        with s show ?thesis by simp
      qed
    qed
    with s show ?thesis by (simp add: k_def)
  qed
qed

text \<open>One call on the QVHighlights record with two windows and \<open>max_windows = 1\<close>,
  the shuffle drawing 0.\<close>

lemma demo_getitem_data:
  "data (fst (snd (getitem demo_qv demo_files 0 [0])))
     = [demo_record\<lparr>relevant_windows := Some [(2, 4), (0, 2)]\<rparr>]"
  by code_simp

lemma demo_getitem_out:
  "fst (getitem demo_qv demo_files 0 [0]) =
     Inr (demo_record\<lparr>relevant_windows := Some [(2, 4), (0, 2)]\<rparr>,
       [(''query_feat'', Feat (Arr2 [[1]])),
        (''video_feat'', Feat (Arr2 [[1], [1]])),
        (''span_labels'', Spans [(3 / 4, 1 / 2)]),
        (''saliency_pos_labels'', Ints [1, 1]),
        (''saliency_neg_labels'', Ints [0, 0]),
        (''saliency_all_labels'', Feat (Arr1 [3, 6])),
        (''relevant_clip_ids'', Ints [0, 1]),
        (''vid'', Str ''v1''), (''qid'', Ident (IntId 1))])"
  by code_simp

text \<open>The theorem at that call: the stored record is reordered, and no more.\<close>

theorem getitem_frame_witness:
  "length (data (fst (snd (getitem demo_qv demo_files 0 [0])))) = length (data demo_qv)
   \<and> windows_reordered demo_qv (data demo_qv ! 0)
         (data (fst (snd (getitem demo_qv demo_files 0 [0]))) ! 0)"
proof -
  define self' where "self' = fst (snd (getitem demo_qv demo_files 0 [0]))"
  have run: "getitem demo_qv demo_files 0 [0] =
      (fst (getitem demo_qv demo_files 0 [0]), self', snd (snd (getitem demo_qv demo_files 0 [0])))"
    by (simp add: self'_def)
  have n: "0 < length (data demo_qv)" by (simp add: demo_qv_def)
  have k: "py_index 0 (length (data demo_qv)) = 0" by (simp add: py_index_def)
  have d': "data self' = [demo_record\<lparr>relevant_windows := Some [(2, 4), (0, 2)]\<rparr>]"
    by (simp add: self'_def demo_getitem_data)
  have d: "data demo_qv = [demo_record]" by (simp add: demo_qv_def)
  have changed: "data self' ! 0 \<noteq> data demo_qv ! 0"
    by (simp add: d d' demo_record_def)
  from getitem_frame [OF run] n k changed
  have "length (data self') = length (data demo_qv)"
    and "windows_reordered demo_qv (data demo_qv ! 0) (data self' ! 0)"
    by auto
  then show ?thesis by (simp add: self'_def)
qed

text \<open>
  Claim C3 as stated fails for a record with more windows than \<open>max_windows\<close>:
  \<^verbatim>\<open>random.shuffle(windows)\<close> shuffles the list held by the stored record. The call
  returns an item, and the stored windows \<open>[[0, 2], [2, 4]]\<close> have become
  \<open>[[2, 4], [0, 2]]\<close>.
\<close>

theorem getitem_counterexample:
  "\<exists>item self' g'.
      getitem demo_qv demo_files 0 [0] = (Inr item, self', g')
    \<and> data demo_qv = [demo_record]
    \<and> relevant_windows demo_record = Some [(0, 2), (2, 4)]
    \<and> data self' = [demo_record\<lparr>relevant_windows := Some [(2, 4), (0, 2)]\<rparr>]
    \<and> data self' \<noteq> data demo_qv"
proof -
  obtain out self' g' where r: "getitem demo_qv demo_files 0 [0] = (out, self', g')"
    by (cases "getitem demo_qv demo_files 0 [0]")
  from r demo_getitem_out obtain item where o: "out = Inr item" by simp
  from r demo_getitem_data
  have d: "data self' = [demo_record\<lparr>relevant_windows := Some [(2, 4), (0, 2)]\<rparr>]" by simp
  have d0: "data demo_qv = [demo_record]" by (simp add: demo_qv_def)
  have w: "relevant_windows demo_record = Some [(0, 2), (2, 4)]" by (simp add: demo_record_def)
  have "data self' \<noteq> data demo_qv"
    by (simp add: d d0 demo_record_def)
  with r o d d0 w show ?thesis by simp
qed
subsection \<open>The tvsum variant\<close>

lemma length_hstack:
  "ms \<noteq> [] \<Longrightarrow> \<forall>m\<in>set ms. length m = n \<Longrightarrow> length (hstack ms) = n"
  by (induction ms rule: hstack.induct) auto

lemma arr2_rows_len: "arr2_rows a \<noteq> None \<Longrightarrow> length (the (arr2_rows a)) = nd_len a"
  by (cases a) auto

lemma concat_axis1_len:
  assumes "concat_axis1 e arrs = Inr c"
  shows "nd_len c = nd_len (hd arrs)"
proof -
  from assms have ne: "arrs \<noteq> []"
    and two: "list_all (\<lambda>a. arr2_rows a \<noteq> None) arrs"
    and same: "list_all (\<lambda>a. nd_len a = nd_len (hd arrs)) arrs"
    and c: "c = Arr2 (hstack (map (\<lambda>a. the (arr2_rows a)) arrs))"
    by (auto simp: concat_axis1_def split: if_splits)
  have "\<forall>m\<in>set (map (\<lambda>a. the (arr2_rows a)) arrs). length m = nd_len (hd arrs)"
    using two same by (auto simp: list_all_iff arr2_rows_len)
  with ne have "length (hstack (map (\<lambda>a. the (arr2_rows a)) arrs)) = nd_len (hd arrs)"
    by (intro length_hstack) auto
  with c show ?thesis by simp
qed

lemma nd_len_slice_to: "nd_len (nd_slice_to (int n) a) = min n (nd_len a)"
  by (cases a) (auto simp: slice_to_def slice_bound_def)

lemma nd_slice_to_full: "nd_slice_to (int (nd_len a)) a = a"
  by (cases a) (auto simp: slice_to_def slice_bound_def)

lemma item_features_video:
  assumes uv: "use_video self" and run: "item_features self fs meta = Inr (mi, ctx_l)"
  shows "\<exists>vf. map_of mi ''video_feat'' = Some (Feat vf) \<and> int (nd_len vf) = ctx_l"
proof -
  from run uv obtain qf v vf where
    vf: "get_video_feat_by_vid self fs v = Inr vf" and
    rest: "(if use_tef self then
            if int (nd_len vf) = 0 then Inl ZeroDivisionError
            else case concat_axis1 RuntimeError [vf, Arr2 (tef_rows (int (nd_len vf)))] of
                Inl e \<Rightarrow> Inl e
              | Inr c \<Rightarrow> Inr (AList.update ''video_feat'' (Feat c)
                     [(''query_feat'', Feat qf), (''video_feat'', Feat vf)], int (nd_len vf))
          else Inr ([(''query_feat'', Feat qf), (''video_feat'', Feat vf)], int (nd_len vf)))
       = Inr (mi, ctx_l)"
    by (auto simp: item_features_def split: sum.splits if_splits)
  show ?thesis
  proof (cases "use_tef self")
    case False
    with rest show ?thesis by auto
  next
    case True
    with rest obtain c where
      c: "concat_axis1 RuntimeError [vf, Arr2 (tef_rows (int (nd_len vf)))] = Inr c"
      and mi: "mi = AList.update ''video_feat'' (Feat c)
                 [(''query_feat'', Feat qf), (''video_feat'', Feat vf)]"
      and l: "ctx_l = int (nd_len vf)"
      by (auto split: sum.splits if_splits)
    from concat_axis1_len [OF c] have "nd_len c = nd_len vf" by simp
    with mi l show ?thesis by simp
  qed
qed

lemma tvsum_labels_len:
  assumes "get_saliency_labels_all_tvsum labels ctx_l 1 False = Inr (pos, neg, sal)"
    and "0 \<le> ctx_l"
  shows "length sal \<le> nat ctx_l"
  using assms
  by (auto simp: get_saliency_labels_all_tvsum_def easy_indices_unbound_def Let_def slice_to_def
        slice_bound_def split: if_splits)

lemma map_of_add_saliency:
  "map_of (add_saliency mi (pos, neg, sal)) =
     (map_of mi)(''saliency_pos_labels'' \<mapsto> Ints pos, ''saliency_neg_labels'' \<mapsto> Ints neg,
                 ''saliency_all_labels'' \<mapsto> Feat (Arr1 sal))"
  by (simp add: add_saliency_def update_conv')

lemma labels_tvsum_video:
  assumes run: "labels_tvsum meta mi ctx_l = Inr mi1"
    and vf0: "map_of mi ''video_feat'' = Some (Feat vf0)" and l: "int (nd_len vf0) = ctx_l"
  shows "\<exists>sal. map_of mi1 ''saliency_all_labels'' = Some (Feat (Arr1 sal))
           \<and> length sal \<le> nd_len vf0
           \<and> map_of mi1 ''video_feat'' = Some (Feat (nd_slice_to (int (length sal)) vf0))"
proof -
  from run obtain lab pos neg sal where
    tv: "get_saliency_labels_all_tvsum lab ctx_l 1 False = Inr (pos, neg, sal)" and
    tr: "truncate_video_feat
           (add_saliency (AList.update ''span_labels'' (Spans [(0, 0)]) mi) (pos, neg, sal))
         = Inr mi1"
    by (auto simp: labels_tvsum_def split: sum.splits)
  define mi2 where
    "mi2 = add_saliency (AList.update ''span_labels'' (Spans [(0, 0)]) mi) (pos, neg, sal)"
  have s2: "map_of mi2 ''saliency_all_labels'' = Some (Feat (Arr1 sal))"
    by (simp add: mi2_def map_of_add_saliency)
  have v2: "map_of mi2 ''video_feat'' = Some (Feat vf0)"
    using vf0 by (simp add: mi2_def map_of_add_saliency update_conv')
  from tvsum_labels_len [OF tv] l have le: "length sal \<le> nd_len vf0" by auto
  show ?thesis
  proof (cases "length sal = nd_len vf0")
    case True
    with tr s2 v2 have "mi1 = mi2" by (simp add: truncate_video_feat_def mi2_def [symmetric])
    with s2 v2 True le show ?thesis by (auto simp: nd_slice_to_full)
  next
    case False
    with tr s2 v2 have
      "mi1 = AList.update ''video_feat'' (Feat (nd_slice_to (int (length sal)) vf0)) mi2"
      by (simp add: truncate_video_feat_def mi2_def [symmetric])
    with s2 le show ?thesis by (auto simp: update_conv')
  qed
qed

text \<open>
  Claim C10. For the tvsum variant with video features and labels, every item that
  \<^verbatim>\<open>__getitem__\<close> returns has a \<open>video_feat\<close> tensor and a \<open>saliency_all_labels\<close> array of
  the same length. The label array is never longer than the video features as loaded
  (with the temporal-encoding columns when they are used), and the returned
  \<open>video_feat\<close> is those features cut to the length of the label array.
\<close>

theorem tvsum_video_matches_labels:
  assumes tv: "dset_name self = ''tvsum''" and uv: "use_video self" and ll: "load_labels self"
    and run: "getitem self fs index g = (Inr (meta, mi), self', g')"
  shows "\<exists>vf sal mi0 ctx_l vf0.
      map_of mi ''video_feat'' = Some (Feat vf)
    \<and> map_of mi ''saliency_all_labels'' = Some (Feat (Arr1 sal))
    \<and> nd_len vf = length sal
    \<and> item_features self fs meta = Inr (mi0, ctx_l)
    \<and> map_of mi0 ''video_feat'' = Some (Feat vf0)
    \<and> length sal \<le> nd_len vf0
    \<and> vf = nd_slice_to (int (length sal)) vf0"
proof -
  from run obtain meta0 where g0: "py_get (data self) index = Inr meta0"
    by (auto simp: getitem_def split: sum.splits)
  from run g0 obtain mi0 ctx_l where f: "item_features self fs meta0 = Inr (mi0, ctx_l)"
    by (auto simp: getitem_def split: sum.splits)
  from tv ll have lab: "(if load_labels self then item_labels self meta0 mi0 ctx_l g
                  else (Inr mi0, meta0, g)) = (labels_tvsum meta0 mi0 ctx_l, meta0, g)"
    by (simp add: item_labels_def)
  from run g0 f lab obtain mi1 v q where
    l1: "labels_tvsum meta0 mi0 ctx_l = Inr mi1" and
    m: "meta = meta0" and
    mi: "mi = AList.update ''qid'' (Ident q) (AList.update ''vid'' (Str v) mi1)"
    by (auto simp: getitem_def Let_def split: sum.splits)
  from item_features_video [OF uv f] obtain vf0 where
    v0: "map_of mi0 ''video_feat'' = Some (Feat vf0)" and c: "int (nd_len vf0) = ctx_l"
    by blast
  from labels_tvsum_video [OF l1 v0 c] obtain sal where
    s: "map_of mi1 ''saliency_all_labels'' = Some (Feat (Arr1 sal))" and
    le: "length sal \<le> nd_len vf0" and
    v: "map_of mi1 ''video_feat'' = Some (Feat (nd_slice_to (int (length sal)) vf0))"
    by blast
  have "nd_len (nd_slice_to (int (length sal)) vf0) = length sal"
    using le by (simp add: nd_len_slice_to)
  with s v mi m f v0 le show ?thesis by (simp add: update_conv')
qed


text \<open>A TVSum item with one annotated clip and two feature rows: the features are cut
  to one row.\<close>

lemma demo_tvsum_out:
  "fst (getitem demo_tvsum_short demo_files 0 []) =
     Inr (demo_tvsum_record\<lparr>label := Some [[1, 2]]\<rparr>,
       [(''query_feat'', Feat (Arr2 [[1]])),
        (''video_feat'', Feat (Arr2 [[1]])),
        (''span_labels'', Spans [(0, 0)]),
        (''saliency_pos_labels'', Ints [0]),
        (''saliency_neg_labels'', Ints [0]),
        (''saliency_all_labels'', Feat (Arr1 [3 / 20])),
        (''vid'', Str ''v1''), (''qid'', Ident (StrId ''q1''))])"
  by code_simp

theorem tvsum_video_matches_labels_witness:
  "dset_name demo_tvsum_short = ''tvsum'' \<and> use_video demo_tvsum_short
   \<and> load_labels demo_tvsum_short
   \<and> (\<exists>meta mi vf sal.
         fst (getitem demo_tvsum_short demo_files 0 []) = Inr (meta, mi)
       \<and> map_of mi ''video_feat'' = Some (Feat vf)
       \<and> map_of mi ''saliency_all_labels'' = Some (Feat (Arr1 sal))
       \<and> nd_len vf = length sal \<and> length sal = 1)"
proof -
  have h: "dset_name demo_tvsum_short = ''tvsum''" "use_video demo_tvsum_short"
    "load_labels demo_tvsum_short"
    by (simp_all add: demo_tvsum_short_def demo_tvsum_def demo_qv_def)
  obtain out self' g' where r: "getitem demo_tvsum_short demo_files 0 [] = (out, self', g')"
    by (cases "getitem demo_tvsum_short demo_files 0 []")
  with demo_tvsum_out obtain meta mi where
    o: "out = Inr (meta, mi)" and
    s: "map_of mi ''saliency_all_labels'' = Some (Feat (Arr1 [3 / 20]))"
    by simp
  from tvsum_video_matches_labels [OF h r [unfolded o]] obtain vf sal where
    v: "map_of mi ''video_feat'' = Some (Feat vf)" and
    s': "map_of mi ''saliency_all_labels'' = Some (Feat (Arr1 sal))" and
    l: "nd_len vf = length sal"
    by blast
  from s s' have "length sal = 1" by simp
  with h r o v s' l show ?thesis by auto
qed
subsection \<open>Collation\<close>

lemma map_raise_py_key:
  "map_raise (\<lambda>e. py_key (f e)) xs = Inr vals \<Longrightarrow>
     vals = map (\<lambda>e. the (f e)) xs \<and> (\<forall>e\<in>set xs. f e \<noteq> None)"
proof (induction xs arbitrary: vals)
  case Nil
  then show ?case by simp
next
  case (Cons x xs)
  then show ?case
    by (auto simp: py_key_def split: option.splits sum.splits)
qed

lemma map_raise_py_key_total:
  "\<forall>e\<in>set xs. f e \<noteq> None \<Longrightarrow>
     map_raise (\<lambda>e. py_key (f e)) xs = Inr (map (\<lambda>e. the (f e)) xs)"
  by (rule map_raise_total) (auto simp: py_key_def)

lemma map_raise_keyed:
  "map_raise (\<lambda>k. case f k of Inl e \<Rightarrow> Inl e | Inr v \<Rightarrow> Inr (k, v)) ks = Inr bd \<Longrightarrow>
     k \<in> set ks \<Longrightarrow> \<exists>v. f k = Inr v \<and> map_of bd k = Some v"
proof (induction ks arbitrary: bd)
  case Nil
  then show ?case by simp
next
  case (Cons a ks)
  then show ?case
    by (cases "a = k") (auto split: sum.splits)
qed

lemma collate_lookup:
  assumes run: "cg_detr_start_end_collate batch = Inr (metas, bd)"
    and key: "map_of (snd (hd batch)) k \<noteq> None"
  shows "\<exists>v. collate_key batch k = Inr v \<and> map_of bd k = Some v"
proof -
  from run obtain e0 rest where b: "batch = e0 # rest"
    by (cases batch) (auto simp: cg_detr_start_end_collate_def)
  from run b have m: "map_raise (\<lambda>k. case collate_key batch k of
                                   Inl e \<Rightarrow> Inl e
                                 | Inr v \<Rightarrow> Inr (k, v))
                  (map fst (snd e0)) = Inr bd"
    by (auto simp: cg_detr_start_end_collate_def split: sum.splits)
  from key b have "k \<in> set (map fst (snd e0))"
    by (auto simp: map_of_eq_None_iff)
  with m show ?thesis by (rule map_raise_keyed)
qed

text \<open>
  Claim C6. For a non-empty batch whose examples all have a \<open>span_labels\<close> field, the
  \<open>span_labels\<close> branch of the collator does not fail, and whenever the collator
  returns, the \<open>span_labels\<close> entry of its output is a list with one element per example,
  in batch order, each element a dictionary whose \<open>spans\<close> value is that example's span
  tensor as it is: neither padded nor stacked nor joined with the others.
\<close>

theorem collate_span_labels:
  assumes ne: "batch \<noteq> []"
    and has: "\<forall>e\<in>set batch. map_of (snd e) ''span_labels'' \<noteq> None"
  shows "collate_key batch ''span_labels'' =
           Inr (SpanDicts (map (\<lambda>e. SpanDict (the (map_of (snd e) ''span_labels'')) ''cpu'') batch))
     \<and> (\<forall>metas bd. cg_detr_start_end_collate batch = Inr (metas, bd) \<longrightarrow>
           map_of bd ''span_labels'' =
             Some (SpanDicts
                     (map (\<lambda>e. SpanDict (the (map_of (snd e) ''span_labels'')) ''cpu'') batch)))"
proof -
  have ck: "collate_key batch ''span_labels'' =
           Inr (SpanDicts (map (\<lambda>e. SpanDict (the (map_of (snd e) ''span_labels'')) ''cpu'') batch))"
    using map_raise_py_key_total [OF has]
    by (simp add: collate_key_def comp_def)
  have "map_of bd ''span_labels'' =
             Some (SpanDicts
                     (map (\<lambda>e. SpanDict (the (map_of (snd e) ''span_labels'')) ''cpu'') batch))"
    if run: "cg_detr_start_end_collate batch = Inr (metas, bd)" for metas bd
  proof -
    from ne has have "map_of (snd (hd batch)) ''span_labels'' \<noteq> None" by simp
    from collate_lookup [OF run this] ck show ?thesis by simp
  qed
  with ck show ?thesis by blast
qed

text \<open>The collation of the two examples.\<close>

lemma demo_collate:
  "cg_detr_start_end_collate [demo_item_a, demo_item_b] =
     Inr ([fst demo_item_a, fst demo_item_b], demo_batch)"
  by code_simp

text \<open>The theorem on that batch: span tensors of one and of two rows, side by side.\<close>

theorem collate_span_labels_witness:
  "[demo_item_a, demo_item_b] \<noteq> []
   \<and> map_of (snd demo_item_a) ''span_labels'' = Some (Spans [(1 / 4, 1 / 2)])
   \<and> map_of (snd demo_item_b) ''span_labels'' = Some (Spans [(1 / 2, 1), (1 / 3, 1 / 3)])
   \<and> map_of demo_batch ''span_labels'' =
       Some (SpanDicts [SpanDict (Spans [(1 / 4, 1 / 2)]) ''cpu'',
                        SpanDict (Spans [(1 / 2, 1), (1 / 3, 1 / 3)]) ''cpu''])"
proof -
  have a: "map_of (snd demo_item_a) ''span_labels'' = Some (Spans [(1 / 4, 1 / 2)])"
    by (simp add: demo_item_a_def)
  have b: "map_of (snd demo_item_b) ''span_labels'' = Some (Spans [(1 / 2, 1), (1 / 3, 1 / 3)])"
    by (simp add: demo_item_b_def)
  have ne: "[demo_item_a, demo_item_b] \<noteq> []" by simp
  have has: "\<forall>e\<in>set [demo_item_a, demo_item_b]. map_of (snd e) ''span_labels'' \<noteq> None"
    using a b by simp
  from collate_span_labels [OF ne has] demo_collate
  have "map_of demo_batch ''span_labels'' =
      Some (SpanDicts (map (\<lambda>e. SpanDict (the (map_of (snd e) ''span_labels'')) ''cpu'')
                         [demo_item_a, demo_item_b]))"
    by blast
  with a b show ?thesis by simp
qed


lemma length_pad_to: "length xs \<le> n \<Longrightarrow> length (pad_to n z xs) = n"
  by (simp add: pad_to_def)

lemma seq_len_le_Max: "s \<in> set sequences \<Longrightarrow> seq_len s \<le> Max (set (map seq_len sequences))"
  by (rule Max_ge) auto

lemma seq_len_seq1: "as_seq1 s \<noteq> None \<Longrightarrow> length (the (as_seq1 s)) = seq_len s"
  by (auto simp: seq_len_def)

lemma seq_len_seq2: "as_seq2 s \<noteq> None \<Longrightarrow> length (the (as_seq2 s)) = seq_len s"
  by (cases s rule: as_seq2.cases) (auto simp: seq_len_def)

lemma pad_sequences_1d_shape:
  assumes "pad_sequences_1d sequences = Inr (pad, msk)"
  shows "msk = map (\<lambda>s. mask_of (Max (set (map seq_len sequences))) (seq_len s)) sequences
     \<and> padded_lengths pad = map (\<lambda>s. Max (set (map seq_len sequences))) sequences"
proof -
  define n where "n = Max (set (map seq_len sequences))"
  have le: "\<And>s. s \<in> set sequences \<Longrightarrow> seq_len s \<le> n"
    unfolding n_def by (rule seq_len_le_Max)
  from assms have m: "msk = map (\<lambda>s. mask_of n (seq_len s)) sequences"
    by (auto simp: pad_sequences_1d_def Let_def n_def split: if_splits)
  have "padded_lengths pad = map (\<lambda>s. n) sequences"
  proof (cases "list_all (\<lambda>s. as_seq1 s \<noteq> None) sequences")
    case True
    with assms have p: "pad = F2 (map (\<lambda>s. pad_to n 0 (the (as_seq1 s))) sequences)"
      by (auto simp: pad_sequences_1d_def Let_def n_def split: if_splits)
    have "\<And>s. s \<in> set sequences \<Longrightarrow> length (pad_to n 0 (the (as_seq1 s))) = n"
      using True le by (intro length_pad_to) (auto simp: list_all_iff seq_len_seq1)
    with p show ?thesis by simp
  next
    case False
    with assms have all2: "list_all (\<lambda>s. as_seq2 s \<noteq> None) sequences"
      by (auto simp: pad_sequences_1d_def Let_def split: if_splits)
    from assms False obtain d where
      p: "pad = F3 (map (\<lambda>s. pad_to n (replicate d 0) (the (as_seq2 s))) sequences)"
      by (auto simp: pad_sequences_1d_def Let_def n_def split: if_splits)
    have "\<And>s. s \<in> set sequences \<Longrightarrow> length (pad_to n (replicate d 0) (the (as_seq2 s))) = n"
      using all2 le by (intro length_pad_to) (auto simp: list_all_iff seq_len_seq2)
    with p show ?thesis by simp
  qed
  with m show ?thesis by (simp add: n_def)
qed

lemma collate_key_padded:
  assumes run: "collate_key batch k = Inr v"
    and k: "k \<in> {''query_feat'', ''video_feat'', ''saliency_all_labels''}"
  shows "\<exists>pad msk.
      pad_sequences_1d (map (\<lambda>e. the (map_of (snd e) k)) batch) = Inr (pad, msk)
    \<and> v = (if k = ''saliency_all_labels'' then BTensor (Tensor ''cpu'' pad)
           else BPair (Tensor ''cpu'' pad) (Tensor ''cpu'' (F2 msk)))"
proof -
  from run obtain vals where mr: "map_raise (\<lambda>e. py_key (map_of (snd e) k)) batch = Inr vals"
    by (auto simp: collate_key_def split: sum.splits)
  from map_raise_py_key [OF mr] have vals: "vals = map (\<lambda>e. the (map_of (snd e) k)) batch"
    by simp
  from run mr k obtain pad msk where p: "pad_sequences_1d vals = Inr (pad, msk)"
    by (auto simp: collate_key_def split: sum.splits)
  from run mr k p have "v = (if k = ''saliency_all_labels'' then BTensor (Tensor ''cpu'' pad)
           else BPair (Tensor ''cpu'' pad) (Tensor ''cpu'' (F2 msk)))"
    by (auto simp: collate_key_def)
  with p vals show ?thesis by blast
qed

text \<open>
  Claim C4, amended. Whenever the collator returns, every field among \<open>query_feat\<close>,
  \<open>video_feat\<close> and \<open>saliency_all_labels\<close> that the first example has is padded by
  \<^verbatim>\<open>pad_sequences_1d\<close> over the whole batch: every padded sequence has the maximum length
  of the batch. For \<open>query_feat\<close> and \<open>video_feat\<close> the output holds the padded tensor
  paired with the mask, which is 1 on the positions of each example and 0 on its
  padding; for \<open>saliency_all_labels\<close> it holds the padded tensor alone, without a mask.
\<close>

theorem collate_padding:
  assumes run: "cg_detr_start_end_collate batch = Inr (metas, bd)"
    and key: "map_of (snd (hd batch)) k \<noteq> None"
    and k: "k \<in> {''query_feat'', ''video_feat'', ''saliency_all_labels''}"
  shows "\<exists>pad msk.
      map_of bd k = Some (if k = ''saliency_all_labels'' then BTensor (Tensor ''cpu'' pad)
                         else BPair (Tensor ''cpu'' pad) (Tensor ''cpu'' (F2 msk)))
    \<and> pad_sequences_1d (map (\<lambda>e. the (map_of (snd e) k)) batch) = Inr (pad, msk)
    \<and> padded_lengths pad =
        map (\<lambda>e. Max (set (map (\<lambda>e. seq_len (the (map_of (snd e) k))) batch))) batch
    \<and> msk =
        map (\<lambda>e. mask_of (Max (set (map (\<lambda>e. seq_len (the (map_of (snd e) k))) batch)))
                          (seq_len (the (map_of (snd e) k)))) batch"
proof -
  from collate_lookup [OF run key] obtain v where
    ck: "collate_key batch k = Inr v" and look: "map_of bd k = Some v" by blast
  from collate_key_padded [OF ck k] obtain pad msk where
    p: "pad_sequences_1d (map (\<lambda>e. the (map_of (snd e) k)) batch) = Inr (pad, msk)" and
    v: "v = (if k = ''saliency_all_labels'' then BTensor (Tensor ''cpu'' pad)
           else BPair (Tensor ''cpu'' pad) (Tensor ''cpu'' (F2 msk)))"
    by blast
  from pad_sequences_1d_shape [OF p]
  have "msk =
        map (\<lambda>e. mask_of (Max (set (map (\<lambda>e. seq_len (the (map_of (snd e) k))) batch)))
                          (seq_len (the (map_of (snd e) k)))) batch"
    and "padded_lengths pad =
        map (\<lambda>e. Max (set (map (\<lambda>e. seq_len (the (map_of (snd e) k))) batch))) batch"
    by (simp_all add: comp_def)
  with look v p show ?thesis by blast
qed


text \<open>The theorem on the video features of the two examples (two and three clips).\<close>

theorem collate_padding_witness:
  "\<exists>pad msk.
      map_of demo_batch ''video_feat'' =
        Some (BPair (Tensor ''cpu'' pad) (Tensor ''cpu'' (F2 msk)))
    \<and> padded_lengths pad = [3, 3] \<and> msk = [[1, 1, 0], [1, 1, 1]]"
proof -
  have key: "map_of (snd (hd [demo_item_a, demo_item_b])) ''video_feat'' \<noteq> None"
    by (simp add: demo_item_a_def)
  have k: "''video_feat'' \<in> {''query_feat'', ''video_feat'', ''saliency_all_labels''}"
    by simp
  have la: "seq_len (the (map_of (snd demo_item_a) ''video_feat'')) = 2"
    by (simp add: demo_item_a_def seq_len_def)
  have lb: "seq_len (the (map_of (snd demo_item_b) ''video_feat'')) = 3"
    by (simp add: demo_item_b_def seq_len_def)
  from collate_padding [OF demo_collate key k] obtain pad msk where
    "map_of demo_batch ''video_feat'' =
        Some (BPair (Tensor ''cpu'' pad) (Tensor ''cpu'' (F2 msk)))"
    and "padded_lengths pad = [3, 3]" and "msk = [mask_of 3 2, mask_of 3 3]"
    by (auto simp: la lb)
  then show ?thesis by (auto simp: mask_of_def numeral_3_eq_3 numeral_2_eq_2)
qed

text \<open>
  Claim C4 as stated fails for \<open>saliency_all_labels\<close>: the collator keeps
  \<^verbatim>\<open>torch.tensor(pad_data)\<close> and drops \<^verbatim>\<open>mask_data\<close>, so the entry of the output is a
  padded tensor with no mask beside it. And not every non-empty batch is collated: the
  keys are those of the first example, and an example that lacks one of them raises
  KeyError.
\<close>

theorem collate_padding_counterexample:
  "\<exists>metas bd.
      cg_detr_start_end_collate [demo_item_a, demo_item_b] = Inr (metas, bd)
    \<and> map_of bd ''saliency_all_labels'' =
        Some (BTensor (Tensor ''cpu'' (F2 [[3, 6, 0], [7, 8, 9]])))
    \<and> (\<forall>pad msk. map_of bd ''saliency_all_labels'' \<noteq> Some (BPair pad msk))
    \<and> cg_detr_start_end_collate [demo_item_a, (fst demo_item_b, [])] = Inl KeyError"
proof -
  have "map_of demo_batch ''saliency_all_labels'' =
        Some (BTensor (Tensor ''cpu'' (F2 [[3, 6, 0], [7, 8, 9]])))"
    by (simp add: demo_batch_def)
  moreover have "cg_detr_start_end_collate [demo_item_a, (fst demo_item_b, [])] = Inl KeyError"
    by code_simp
  ultimately show ?thesis using demo_collate by simp
qed

subsection \<open>Moving a batch to the device\<close>
















text \<open>The collated batch of the two examples moved to a GPU, with its labels and with
  the labels taken out.\<close>

lemma demo_prepare:
  "cg_detr_prepare_batch_inputs demo_batch ''cuda'' False =
     Inr ([(''src_txt'', BTensor (Tensor ''cuda'' (F3 [[[1], [0]], [[2], [3]]]))),
           (''src_txt_mask'', BTensor (Tensor ''cuda'' (F2 [[1, 0], [1, 1]]))),
           (''src_vid'', BTensor (Tensor ''cuda'' (F3 [[[1], [1], [0]], [[4], [5], [6]]]))),
           (''src_vid_mask'', BTensor (Tensor ''cuda'' (F2 [[1, 1, 0], [1, 1, 1]]))),
           (''vid'', BList [Str ''v1'', Str ''v2'']),
           (''qid'', BList [Ident (IntId 1), Ident (IntId 2)])],
          Some [(''span_labels'',
                 SpanDicts [SpanDict (Spans [(1 / 4, 1 / 2)]) ''cuda'',
                            SpanDict (Spans [(1 / 2, 1), (1 / 3, 1 / 3)]) ''cuda'']),
                (''saliency_pos_labels'', BTensor (Tensor ''cuda'' (L2 [[1, 1], [2, 0]]))),
                (''saliency_neg_labels'', BTensor (Tensor ''cuda'' (L2 [[0, 0], [1, 1]]))),
                (''saliency_all_labels'', BTensor (Tensor ''cuda'' (F2 [[3, 6, 0], [7, 8, 9]]))),
                (''relevant_clips'', BTensor (Tensor ''cuda'' (F2 [[3, 6, 0], [7, 8, 9]])))])"
  by code_simp

lemma demo_prepare_no_labels:
  "cg_detr_prepare_batch_inputs
      (filter (\<lambda>kv. fst kv \<in> set [''query_feat'', ''video_feat'', ''vid'', ''qid'']) demo_batch)
      ''cuda'' False =
     Inr ([(''src_txt'', BTensor (Tensor ''cuda'' (F3 [[[1], [0]], [[2], [3]]]))),
           (''src_txt_mask'', BTensor (Tensor ''cuda'' (F2 [[1, 0], [1, 1]]))),
           (''src_vid'', BTensor (Tensor ''cuda'' (F3 [[[1], [1], [0]], [[4], [5], [6]]]))),
           (''src_vid_mask'', BTensor (Tensor ''cuda'' (F2 [[1, 1, 0], [1, 1, 1]]))),
           (''vid'', BList [Str ''v1'', Str ''v2'']),
           (''qid'', BList [Ident (IntId 1), Ident (IntId 2)])],
          None)"
  by code_simp


end
